theory Spec2Isabelle
  imports Complex_Main "HOL-Library.Sublist"
begin

section \<open>Data model (src/App.tsx)\<close>

text \<open>
  \<^verbatim>\<open>type PhotoStatus = 'idle' | 'pending' | 'done' | 'error' | 'uploading'\<close>
\<close>

datatype PhotoStatus = Idle | Pending | Done | Error | Uploading

text \<open>
  The interface \<^verbatim>\<open>Photo\<close>. The three optional fields (\<^verbatim>\<open>generatedUrl?\<close>,
  \<^verbatim>\<open>error?\<close>, \<^verbatim>\<open>localDataUrl?\<close>) are options: \<open>None\<close> is JavaScript's
  \<^verbatim>\<open>undefined\<close> (the key absent, or present with the value undefined). Strings are
  HOL strings; the handlers compare them, test them for emptiness and concatenate them.
\<close>

record Photo =
  id_photo :: string
  imageUrl :: string
  date :: string
  message :: string
  status :: PhotoStatus
  generatedUrl :: "string option"
  error :: "string option"
  localDataUrl :: "string option"

text \<open>
  A thrown JavaScript value. The handlers only ever ask it
  \<^verbatim>\<open>error instanceof Error ? error.message : ...\<close>, so a thrown value is either an
  \<^verbatim>\<open>Error\<close> with its message, or some other value, kept as the text
  \<^verbatim>\<open>JSON.stringify\<close> gives for it.
\<close>

datatype thrown = ErrorObj string | NonError string

section \<open>The id-keyed merges of the photo list (src/App.tsx)\<close>

text \<open>
  Every completion is \<^verbatim>\<open>setPhotos(prev => prev.map(p => p.id === X ? {...p, fields} : p))\<close>.
  Each function below is one of these arrow functions, applied to \<^verbatim>\<open>prev\<close>.
\<close>

text \<open>Line 160, upload resolved with \<^verbatim>\<open>cloudUrl\<close>.\<close>

definition uploadResolved :: "string \<Rightarrow> string \<Rightarrow> Photo list \<Rightarrow> Photo list" where
  "uploadResolved tempId cloudUrl prev =
     map (\<lambda>p. if id_photo p = tempId
               then p\<lparr>imageUrl := cloudUrl, status := Idle, localDataUrl := None\<rparr>
               else p) prev"

text \<open>Line 163, upload rejected.\<close>

definition uploadRejected :: "string \<Rightarrow> Photo list \<Rightarrow> Photo list" where
  "uploadRejected tempId prev =
     map (\<lambda>p. if id_photo p = tempId
               then p\<lparr>status := Error, error := Some ''Upload failed.''\<rparr>
               else p) prev"

text \<open>
  Lines 173-177. \<^verbatim>\<open>updates\<close> is a \<^verbatim>\<open>Partial<Pick<Photo, 'date' | 'message'>>\<close>: each of
  the two keys is present or not, and \<^verbatim>\<open>{...p, ...updates}\<close> overwrites the present ones.
\<close>

record PhotoUpdates =
  upd_date :: "string option"
  upd_message :: "string option"

definition spreadUpdates :: "Photo \<Rightarrow> PhotoUpdates \<Rightarrow> Photo" where
  "spreadUpdates p updates =
     (let p1 = (case upd_date updates of None \<Rightarrow> p | Some d \<Rightarrow> p\<lparr>date := d\<rparr>)
      in (case upd_message updates of None \<Rightarrow> p1 | Some m \<Rightarrow> p1\<lparr>message := m\<rparr>))"

definition handleUpdatePhoto :: "string \<Rightarrow> PhotoUpdates \<Rightarrow> Photo list \<Rightarrow> Photo list" where
  "handleUpdatePhoto i updates prevPhotos =
     map (\<lambda>p. if id_photo p = i then spreadUpdates p updates else p) prevPhotos"

text \<open>Lines 179-181: \<^verbatim>\<open>setPhotos(photos.filter(p => p.id !== id))\<close>.\<close>

definition handleDeletePhoto :: "string \<Rightarrow> Photo list \<Rightarrow> Photo list" where
  "handleDeletePhoto i photos = filter (\<lambda>p. id_photo p \<noteq> i) photos"

text \<open>Line 187, the entry is marked pending.\<close>

definition markPending :: "string \<Rightarrow> Photo list \<Rightarrow> Photo list" where
  "markPending i prev = map (\<lambda>p. if id_photo p = i then p\<lparr>status := Pending\<rparr> else p) prev"

text \<open>Line 196, generation and the upload of its result succeeded.\<close>

definition generationDone :: "string \<Rightarrow> string \<Rightarrow> Photo list \<Rightarrow> Photo list" where
  "generationDone i generatedCloudUrl prev =
     map (\<lambda>p. if id_photo p = i
               then p\<lparr>status := Done, generatedUrl := Some generatedCloudUrl\<rparr>
               else p) prev"

text \<open>Line 200, generation or the upload of its result failed.\<close>

definition generationFailed :: "string \<Rightarrow> string \<Rightarrow> Photo list \<Rightarrow> Photo list" where
  "generationFailed i errorMessage prev =
     map (\<lambda>p. if id_photo p = i
               then p\<lparr>status := Error, error := Some errorMessage\<rparr>
               else p) prev"

text \<open>
  The six id-keyed merges as one type, so that a statement can range over all of them:
  a merge is its target id and what it does to the entry.
\<close>

datatype merge =
    UploadResolved string
  | UploadRejected
  | UpdatePhoto PhotoUpdates
  | MarkPending
  | GenerationDone string
  | GenerationFailed string

fun applyMerge :: "string \<Rightarrow> merge \<Rightarrow> Photo list \<Rightarrow> Photo list" where
  "applyMerge i (UploadResolved cloudUrl) prev = uploadResolved i cloudUrl prev"
| "applyMerge i UploadRejected prev = uploadRejected i prev"
| "applyMerge i (UpdatePhoto updates) prev = handleUpdatePhoto i updates prev"
| "applyMerge i MarkPending prev = markPending i prev"
| "applyMerge i (GenerationDone url) prev = generationDone i url prev"
| "applyMerge i (GenerationFailed msg) prev = generationFailed i msg prev"

text \<open>What a merge does to the entry it targets.\<close>

fun mergeEntry :: "merge \<Rightarrow> Photo \<Rightarrow> Photo" where
  "mergeEntry (UploadResolved cloudUrl) p =
     p\<lparr>imageUrl := cloudUrl, status := Idle, localDataUrl := None\<rparr>"
| "mergeEntry UploadRejected p = p\<lparr>status := Error, error := Some ''Upload failed.''\<rparr>"
| "mergeEntry (UpdatePhoto updates) p = spreadUpdates p updates"
| "mergeEntry MarkPending p = p\<lparr>status := Pending\<rparr>"
| "mergeEntry (GenerationDone url) p = p\<lparr>status := Done, generatedUrl := Some url\<rparr>"
| "mergeEntry (GenerationFailed msg) p = p\<lparr>status := Error, error := Some msg\<rparr>"

section \<open>The generative image service client (services/geminiService.ts)\<close>

text \<open>
  The service's source is the second part of src/components/PolaroidCard.tsx (from line
  226); the line numbers below are lines of that file.
\<close>

text \<open>
  What the client does to the outside world, in order: the fetch of the source image, the
  calls of the model (numbered by attempt), the waits between them (milliseconds) and the
  upload of a generated image.
\<close>

datatype effect = FetchImage string | ModelCall nat | Wait nat | UploadImage string

text \<open>
  The parts of a \<^verbatim>\<open>GenerateContentResponse\<close> that the code reads:
  \<^verbatim>\<open>response.candidates?.[0]?.content?.parts\<close>, each part's \<^verbatim>\<open>inlineData\<close>, and the
  response's \<^verbatim>\<open>text\<close> accessor. Every link of that chain may be undefined.
\<close>

record InlineData =
  mimeType :: string
  data :: string

record Part =
  inlineData :: "InlineData option"
  partText :: "string option"

record Content =
  parts :: "Part list option"

record Candidate =
  content :: "Content option"

record GenerateContentResponse =
  candidates :: "Candidate list option"
  responseText :: "string option"

text \<open>\<^verbatim>\<open>a || b\<close> on an optional string: the empty string and undefined are falsy.\<close>

definition orElse :: "string option \<Rightarrow> string \<Rightarrow> string" where
  "orElse a b = (case a of None \<Rightarrow> b | Some s \<Rightarrow> if s = [] then b else s)"

text \<open>Line 271: \<^verbatim>\<open>response.candidates?.[0]?.content?.parts?.find(part => part.inlineData)\<close>.\<close>

definition imagePartFromResponse :: "GenerateContentResponse \<Rightarrow> Part option" where
  "imagePartFromResponse response =
     (case candidates response of
        None \<Rightarrow> None
      | Some cs \<Rightarrow>
          (case cs of
             [] \<Rightarrow> None
           | c # _ \<Rightarrow>
               (case content c of
                  None \<Rightarrow> None
                | Some ct \<Rightarrow>
                    (case parts ct of
                       None \<Rightarrow> None
                     | Some ps \<Rightarrow> find (\<lambda>part. inlineData part \<noteq> None) ps))))"

definition textInsteadOfImage :: "string \<Rightarrow> string" where
  "textInsteadOfImage t =
     ''The AI model responded with text instead of an image: '' @ [CHR 0x22] @ t @ [CHR 0x22]"

text \<open>Lines 270-281.\<close>

definition processGeminiResponse :: "GenerateContentResponse \<Rightarrow> thrown + string" where
  "processGeminiResponse response =
     (case Option.bind (imagePartFromResponse response) inlineData of
        Some d \<Rightarrow> Inr (''data:'' @ mimeType d @ '';base64,'' @ data d)
      | None \<Rightarrow>
          (let textResponse = responseText response
           in Inl (ErrorObj
                (textInsteadOfImage (orElse textResponse ''No text response received.'')))))"

text \<open>\<^verbatim>\<open>String.prototype.includes\<close>: the search string occurs somewhere in the string.\<close>

fun includes_str :: "string \<Rightarrow> string \<Rightarrow> bool" where
  "includes_str [] search = (search = [])"
| "includes_str (c # cs) search = (prefix search (c # cs) \<or> includes_str cs search)"

text \<open>\<^verbatim>\<open>error instanceof Error ? error.message : JSON.stringify(error)\<close>\<close>

definition errorMessageOf :: "thrown \<Rightarrow> string" where
  "errorMessageOf e = (case e of ErrorObj m \<Rightarrow> m | NonError j \<Rightarrow> j)"

text \<open>Line 303.\<close>

definition isInternalError :: "string \<Rightarrow> bool" where
  "isInternalError errorMessage =
     (includes_str errorMessage ([CHR 0x22] @ ''code'' @ [CHR 0x22] @ '':500'')
      \<or> includes_str errorMessage ''INTERNAL''
      \<or> includes_str errorMessage ''503'')"

definition maxRetries :: nat where
  "maxRetries = 3"

definition initialDelay :: nat where
  "initialDelay = 1000"

text \<open>
  The loop of lines 291-314. \<open>generateContent n\<close> is what the \<open>n\<close>-th call of
  \<^verbatim>\<open>client.models.generateContent\<close> does: it throws (\<open>Inl\<close>) or returns a response.
  The result is the effects in order and what the function returns or throws.
\<close>

function retryLoop :: "(nat \<Rightarrow> thrown + 'r) \<Rightarrow> nat \<Rightarrow> effect list \<times> (thrown + 'r)" where
  "retryLoop generateContent attempt =
     (if attempt \<le> maxRetries then
        (case generateContent attempt of
           Inr response \<Rightarrow> ([ModelCall attempt], Inr response)
         | Inl err \<Rightarrow>
             (let errorMessage = errorMessageOf err;
                  isInternal = isInternalError errorMessage
              in if isInternal \<and> attempt < maxRetries then
                   (let delay = initialDelay * 2 ^ (attempt - 1);
                        later = retryLoop generateContent (attempt + 1)
                    in (ModelCall attempt # Wait delay # fst later, snd later))
                 else ([ModelCall attempt], Inl err)))
      else ([], Inl (ErrorObj ''Gemini API call failed after all retries.'')))"
  by pat_completeness auto
termination
  by (relation "measure (\<lambda>(g, attempt). maxRetries + 1 - attempt)") auto

text \<open>
  Lines 235-265, \<^verbatim>\<open>getGeminiClient\<close>: \<open>keyConfigured\<close> says whether a client is cached
  or one of the three sources gave an API key; otherwise the function throws.
\<close>

definition getGeminiClient :: "bool \<Rightarrow> thrown + unit" where
  "getGeminiClient keyConfigured =
     (if keyConfigured then Inr ()
      else Inl (ErrorObj ''GEMINI_API_KEY is not configured. Please set it in .env.local''))"

text \<open>Lines 286-315.\<close>

definition callGeminiWithRetry ::
  "bool \<Rightarrow> (nat \<Rightarrow> thrown + 'r) \<Rightarrow> effect list \<times> (thrown + 'r)" where
  "callGeminiWithRetry keyConfigured generateContent =
     (case getGeminiClient keyConfigured of
        Inl e \<Rightarrow> ([], Inl e)
      | Inr client \<Rightarrow> retryLoop generateContent 1)"

text \<open>
  What \<^verbatim>\<open>fetch(imageUrl)\<close> resolves to, as far as lines 320-332 read it: the
  response's \<^verbatim>\<open>ok\<close> and \<^verbatim>\<open>statusText\<close>, and what the \<^verbatim>\<open>FileReader\<close> makes of
  the body (a data URL, or a rejection).
\<close>

record FetchedImage =
  img_ok :: bool
  img_statusText :: string
  img_dataUrl :: "thrown + string"

definition imageUrlToDataUrl ::
  "(string \<Rightarrow> thrown + FetchedImage) \<Rightarrow> string \<Rightarrow> thrown + string" where
  "imageUrlToDataUrl fetchImage url =
     (case fetchImage url of
        Inl e \<Rightarrow> Inl e
      | Inr response \<Rightarrow>
          if \<not> img_ok response then
            Inl (ErrorObj (''Failed to fetch image from '' @ url @ '': '' @ img_statusText response))
          else img_dataUrl response)"

text \<open>
  Line 340: \<^verbatim>\<open>imageDataUrl.match(/^data:(image\/\w+);base64,(.*)$/)\<close>. \<^verbatim>\<open>\w\<close> is a letter,
  a digit or the underscore; the character after the \<^verbatim>\<open>\w+\<close> must be \<^verbatim>\<open>;\<close>, which is no
  word character, so the group is the longest run of word characters. Without the
  \<^verbatim>\<open>s\<close> flag the dot matches no line terminator.
\<close>

definition isWordChar :: "char \<Rightarrow> bool" where
  "isWordChar c =
     (let n = (of_char c :: nat)
      in (48 \<le> n \<and> n \<le> 57) \<or> (65 \<le> n \<and> n \<le> 90) \<or> (97 \<le> n \<and> n \<le> 122) \<or> n = 95)"

definition isLineTerminator :: "char \<Rightarrow> bool" where
  "isLineTerminator c = (c = CHR 0x0A \<or> c = CHR 0x0D)"

definition matchDataUrl :: "string \<Rightarrow> (string \<times> string) option" where
  "matchDataUrl s =
     (if prefix ''data:image/'' s then
        (let rest = drop 11 s;
             word = takeWhile isWordChar rest;
             after = dropWhile isWordChar rest
         in if word \<noteq> [] \<and> prefix '';base64,'' after
               \<and> list_all (\<lambda>c. \<not> isLineTerminator c) (drop 8 after)
            then Some (''image/'' @ word, drop 8 after)
            else None)
      else None)"

text \<open>Lines 350-354, the prompt template with the message in it.\<close>

definition promptFor :: "string \<Rightarrow> string" where
  "promptFor msg =
     ''Based on the user'' @ [CHR 0x27] @ ''s photo and their memory, generate a new image ''
     @ ''that artistically enhances the original. The new image should capture the feeling ''
     @ ''and essence of the memory provided.'' @ [CHR 0x0A] @ ''    '' @ [CHR 0x0A]
     @ ''    User'' @ [CHR 0x27] @ ''s Memory: '' @ [CHR 0x22] @ msg @ [CHR 0x22]
     @ [CHR 0x0A, CHR 0x0A]
     @ ''    The output must be a single, beautified, photorealistic image. ''
     @ ''Do not add text to the image.''"

text \<open>
  What \<^verbatim>\<open>fetch('/api/upload-image', ...)\<close> resolves to, as far as lines 43-48 read it:
  \<^verbatim>\<open>ok\<close>, the body as text, and the \<^verbatim>\<open>url\<close> of the body as JSON (the endpoint,
  src/api/upload-image.ts, answers a success with the URL of the stored blob).
\<close>

record UploadResponse =
  up_ok :: bool
  up_text :: string
  up_url :: "thrown + string"

text \<open>
  The outside world of one run of a handler: whether an API key can be found, what the
  fetch of an image URL gives, what the \<open>n\<close>-th call of the model gives for a request
  (image part and prompt), and what the upload endpoint answers for a data URL.
\<close>

record Services =
  keyConfigured :: bool
  fetchImage :: "string \<Rightarrow> thrown + FetchedImage"
  generateContent :: "InlineData \<Rightarrow> string \<Rightarrow> nat \<Rightarrow> thrown + GenerateContentResponse"
  postImage :: "string \<Rightarrow> thrown + UploadResponse"

definition failedToGenerate :: "string \<Rightarrow> string" where
  "failedToGenerate errorMessage =
     ''The AI model failed to generate an image. Details: '' @ errorMessage"

text \<open>Lines 337-365.\<close>

definition generateTimelineImage ::
  "Services \<Rightarrow> string \<Rightarrow> string \<Rightarrow> effect list \<times> (thrown + string)" where
  "generateTimelineImage sv url msg =
     (case imageUrlToDataUrl (fetchImage sv) url of
        Inl e \<Rightarrow> ([FetchImage url], Inl e)
      | Inr imageDataUrl \<Rightarrow>
          (case matchDataUrl imageDataUrl of
             None \<Rightarrow>
               ([FetchImage url],
                Inl (ErrorObj ''Failed to convert image URL to a valid data URL format.''))
           | Some (mime, base64Data) \<Rightarrow>
               (let imagePart = \<lparr>mimeType = mime, data = base64Data\<rparr>;
                    prompt = promptFor msg;
                    called = callGeminiWithRetry (keyConfigured sv)
                               (generateContent sv imagePart prompt);
                    processed = (case snd called of
                                   Inl e \<Rightarrow> Inl e
                                 | Inr response \<Rightarrow> processGeminiResponse response)
                in (FetchImage url # fst called,
                    case processed of
                      Inl e \<Rightarrow> Inl (ErrorObj (failedToGenerate (errorMessageOf e)))
                    | Inr dataUrl \<Rightarrow> Inr dataUrl))))"

section \<open>Upload and generation handlers (src/App.tsx)\<close>

text \<open>
  Lines 34-49. \<^verbatim>\<open>dataURLtoBlob\<close> (lib/albumUtils) only repackages the data URL, so
  the request is identified by the data URL.
\<close>

definition uploadImageToCloud ::
  "(string \<Rightarrow> thrown + UploadResponse) \<Rightarrow> string \<Rightarrow> thrown + string" where
  "uploadImageToCloud post dataUrl =
     (case post dataUrl of
        Inl e \<Rightarrow> Inl e
      | Inr response \<Rightarrow>
          if \<not> up_ok response then
            Inl (ErrorObj (''Image upload failed: '' @ up_text response))
          else up_url response)"

text \<open>
  Line 199: \<^verbatim>\<open>error instanceof Error ? error.message : "An unknown error occurred."\<close>
\<close>

definition handlerMessage :: "thrown \<Rightarrow> string" where
  "handlerMessage e =
     (case e of ErrorObj m \<Rightarrow> m | NonError _ \<Rightarrow> ''An unknown error occurred.'')"

text \<open>
  Lines 183-202. The handler is asynchronous: each \<^verbatim>\<open>setPhotos(prev => ...)\<close> is applied
  to the list as it is when the call is made, and other handlers may run in between. So
  the model returns the effects and the merges (all on the id \<open>i\<close>) in the order the
  handler issues them, not a final list.
\<close>

definition handleGenerateImage ::
  "Services \<Rightarrow> Photo list \<Rightarrow> string \<Rightarrow> effect list \<times> merge list" where
  "handleGenerateImage sv photos i =
     (case find (\<lambda>p. id_photo p = i) photos of
        None \<Rightarrow> ([], [])
      | Some photo \<Rightarrow>
          if imageUrl photo = [] then ([], [])
          else
            (let generated = generateTimelineImage sv (imageUrl photo) (message photo)
             in case snd generated of
                  Inl e \<Rightarrow> (fst generated, [MarkPending, GenerationFailed (handlerMessage e)])
                | Inr generatedDataUrl \<Rightarrow>
                    (case uploadImageToCloud (postImage sv) generatedDataUrl of
                       Inl e \<Rightarrow>
                         (fst generated @ [UploadImage generatedDataUrl],
                          [MarkPending, GenerationFailed (handlerMessage e)])
                     | Inr generatedCloudUrl \<Rightarrow>
                         (fst generated @ [UploadImage generatedDataUrl],
                          [MarkPending, GenerationDone generatedCloudUrl]))))"

text \<open>The list after the merges of one handler run, when nothing else runs in between.\<close>

definition applyMerges :: "string \<Rightarrow> merge list \<Rightarrow> Photo list \<Rightarrow> Photo list" where
  "applyMerges i ms photos = foldl (\<lambda>prev m. applyMerge i m prev) photos ms"

section \<open>The card's controls (src/components/PolaroidCard.tsx)\<close>

text \<open>
  Lines 212-219: the Generate button is rendered when the status is idle and is disabled
  when the date or the message is empty. Line 131: in status error the card shows
  \<^verbatim>\<open>ErrorDisplay\<close>, whose Try Again button calls \<^verbatim>\<open>onGenerate\<close> with no condition.
\<close>

definition generateButtonEnabled :: "Photo \<Rightarrow> bool" where
  "generateButtonEnabled p = (status p = Idle \<and> \<not> (date p = [] \<or> message p = []))"

definition tryAgainShown :: "Photo \<Rightarrow> bool" where
  "tryAgainShown p = (status p = Error)"

section \<open>The history of the photo list\<close>

text \<open>The entry that lines 148-155 create for an accepted image file.\<close>

definition newPhoto :: "string \<Rightarrow> string \<Rightarrow> Photo" where
  "newPhoto tempId dataUrl =
     \<lparr>id_photo = tempId, imageUrl = [], date = [], message = [], status = Uploading,
      generatedUrl = None, error = None, localDataUrl = Some dataUrl\<rparr>"







section \<open>JSON values as the handlers read them\<close>

text \<open>
  The value \<^verbatim>\<open>JSON.parse\<close> returns. An object is its key-value pairs in order, each
  key once (\<^verbatim>\<open>JSON.parse\<close> keeps one value per key).
\<close>

datatype json =
    JNull
  | JBool bool
  | JNum real
  | JStr string
  | JArr "json list"
  | JObj "(string \<times> json) list"

text \<open>
  \<^verbatim>\<open>v.key\<close> for one of the keys the handlers read (\<^verbatim>\<open>photos\<close>, \<^verbatim>\<open>id\<close>,
  \<^verbatim>\<open>imageUrl\<close>, \<^verbatim>\<open>dataUrl\<close>): on \<^verbatim>\<open>null\<close> a TypeError, on an object the value or
  undefined (\<open>None\<close>), on an array, string, number or boolean undefined.
\<close>

fun getProp :: "json \<Rightarrow> string \<Rightarrow> thrown + json option" where
  "getProp JNull key = Inl (ErrorObj (''Cannot read properties of null (reading '' @ key @ '')''))"
| "getProp (JObj kvs) key = Inr (map_of kvs key)"
| "getProp _ key = Inr None"

text \<open>JavaScript's truthiness of a value that may be undefined.\<close>

fun truthy :: "json option \<Rightarrow> bool" where
  "truthy None = False"
| "truthy (Some JNull) = False"
| "truthy (Some (JBool b)) = b"
| "truthy (Some (JNum n)) = (n \<noteq> 0)"
| "truthy (Some (JStr s)) = (s \<noteq> [])"
| "truthy (Some (JArr _)) = True"
| "truthy (Some (JObj _)) = True"

text \<open>\<^verbatim>\<open>a || b\<close>\<close>

definition orJs :: "json option \<Rightarrow> json option \<Rightarrow> json option" where
  "orJs a b = (if truthy a then a else b)"

text \<open>\<^verbatim>\<open>Array.isArray(v) ? the elements : nothing\<close>, for a value that may be undefined.\<close>

fun arrayElements :: "json option \<Rightarrow> json list option" where
  "arrayElements (Some (JArr xs)) = Some xs"
| "arrayElements _ = None"

text \<open>
  \<^verbatim>\<open>{...p, key: v}\<close> on the pairs of an object: an existing key keeps its place and takes
  the new value, a new key goes to the end.
\<close>

fun setKey :: "(string \<times> json) list \<Rightarrow> string \<Rightarrow> json \<Rightarrow> (string \<times> json) list" where
  "setKey [] key v = [(key, v)]"
| "setKey ((k, w) # kvs) key v = (if k = key then (k, v) # kvs else (k, w) # setKey kvs key v)"

section \<open>File selection (src/App.tsx, handleFileSelect)\<close>

record File =
  fileName :: string
  fileType :: string
  fileText :: string

text \<open>
  What the handler does, in order: it replaces the list by a loaded timeline, appends a
  new entry, starts the upload of an entry's image, or alerts the user.
\<close>

datatype action =
    SetPhotos "json list"
  | AppendPhoto Photo
  | StartUpload string string
  | Alert string

text \<open>
  The outside world of file selection: \<^verbatim>\<open>JSON.parse\<close>, \<^verbatim>\<open>resizeImage\<close>
  (lib/albumUtils) and the id \<^verbatim>\<open>`${Date.now()}-${Math.random()}`\<close> made for the
  \<open>n\<close>-th image file.
\<close>

record FileServices =
  JSON_parse :: "string \<Rightarrow> thrown + json"
  resizeImage :: "File \<Rightarrow> thrown + string"
  tempIdFor :: "nat \<Rightarrow> string"

text \<open>
  Line 126, the test of one element: \<^verbatim>\<open>p.id && (p.imageUrl || p.dataUrl)\<close>, as a
  boolean. It throws on a \<^verbatim>\<open>null\<close> element.
\<close>

definition entryCheck :: "json \<Rightarrow> thrown + bool" where
  "entryCheck p =
     (case getProp p ''id'' of
        Inl e \<Rightarrow> Inl e
      | Inr pid \<Rightarrow>
          if \<not> truthy pid then Inr False
          else (case getProp p ''imageUrl'' of
                  Inl e \<Rightarrow> Inl e
                | Inr url \<Rightarrow>
                    if truthy url then Inr True
                    else (case getProp p ''dataUrl'' of
                            Inl e \<Rightarrow> Inl e
                          | Inr d \<Rightarrow> Inr (truthy d))))"

text \<open>\<^verbatim>\<open>photosToLoad.every(...)\<close>: stops at the first element that fails or throws.\<close>

fun everyEntry :: "json list \<Rightarrow> thrown + bool" where
  "everyEntry [] = Inr True"
| "everyEntry (p # ps) =
     (case entryCheck p of
        Inl e \<Rightarrow> Inl e
      | Inr ok \<Rightarrow> if ok then everyEntry ps else Inr False)"

text \<open>
  Line 128: \<^verbatim>\<open>{ ...p, imageUrl: p.imageUrl || p.dataUrl || '' }\<close>. The handler calls it
  only on elements that passed the test, and these are objects; a value that is no
  object is left as it is here.
\<close>

definition migratePhoto :: "json \<Rightarrow> json" where
  "migratePhoto p =
     (case p of
        JObj kvs \<Rightarrow>
          (case orJs (orJs (map_of kvs ''imageUrl'') (map_of kvs ''dataUrl'')) (Some (JStr [])) of
             Some v \<Rightarrow> JObj (setKey kvs ''imageUrl'' v)
           | None \<Rightarrow> JObj kvs)
      | _ \<Rightarrow> p)"

definition couldNotLoad :: "string \<Rightarrow> string" where
  "couldNotLoad name =
     ''Could not load the timeline from '' @ name
     @ ''. The file might be corrupted or in the wrong format.''"

text \<open>
  Lines 111-138 on the file \<^verbatim>\<open>jsonFiles[0]\<close>: whether a timeline was loaded, and the
  actions. Every throw inside the \<^verbatim>\<open>try\<close> ends in the same alert.
\<close>

definition loadJsonFile :: "FileServices \<Rightarrow> File \<Rightarrow> bool \<times> action list" where
  "loadJsonFile sv file =
     (let failed = (False, [Alert (couldNotLoad (fileName file))])
      in case JSON_parse sv (fileText file) of
           Inl e \<Rightarrow> failed
         | Inr parsedJson \<Rightarrow>
             (case getProp parsedJson ''photos'' of
                Inl e \<Rightarrow> failed
              | Inr photosField \<Rightarrow>
                  (case (case arrayElements photosField of
                           Some xs \<Rightarrow> Some xs
                         | None \<Rightarrow> arrayElements (Some parsedJson)) of
                     None \<Rightarrow> failed
                   | Some photosToLoad \<Rightarrow>
                       (case everyEntry photosToLoad of
                          Inl e \<Rightarrow> failed
                        | Inr ok \<Rightarrow>
                            if ok then
                              (True,
                               [SetPhotos (map migratePhoto photosToLoad),
                                Alert (''Successfully loaded timeline from '' @ fileName file)])
                            else failed))))"

text \<open>Lines 143-169: the loop over the image files; \<open>n\<close> counts the files done.\<close>

fun processImages :: "FileServices \<Rightarrow> nat \<Rightarrow> File list \<Rightarrow> action list" where
  "processImages sv n [] = []"
| "processImages sv n (file # files) =
     (let tempId = tempIdFor sv n
      in (case resizeImage sv file of
            Inr dataUrl \<Rightarrow> [AppendPhoto (newPhoto tempId dataUrl), StartUpload tempId dataUrl]
          | Inl e \<Rightarrow> [Alert (''Could not process '' @ fileName file @ ''.'')])
         @ processImages sv (Suc n) files)"

text \<open>Lines 100-171. \<^verbatim>\<open>event.target.files\<close> may be null.\<close>

definition handleFileSelect :: "FileServices \<Rightarrow> File list option \<Rightarrow> action list" where
  "handleFileSelect sv target =
     (case target of
        None \<Rightarrow> []
      | Some files \<Rightarrow>
          (let imageFiles = filter (\<lambda>file. prefix ''image/'' (fileType file)) files;
               jsonFiles = filter (\<lambda>file. fileType file = ''application/json'') files;
               loaded = (case jsonFiles of
                           [] \<Rightarrow> (False, [])
                         | file # _ \<Rightarrow> loadJsonFile sv file)
           in snd loaded
              @ (if \<not> fst loaded \<and> imageFiles \<noteq> [] then processImages sv 0 imageFiles
                 else [])))"

text \<open>
  The import rule in the spec's words: the document is a bare array or an object whose
  \<^verbatim>\<open>photos\<close> is an array, and every element carries an id and an \<^verbatim>\<open>imageUrl\<close> or a
  \<^verbatim>\<open>dataUrl\<close> (carries: the value is truthy).
\<close>

fun timelineEntries :: "json \<Rightarrow> json list option" where
  "timelineEntries (JArr xs) = Some xs"
| "timelineEntries (JObj kvs) = arrayElements (map_of kvs ''photos'')"
| "timelineEntries _ = None"

fun carriesIdAndUrl :: "json \<Rightarrow> bool" where
  "carriesIdAndUrl (JObj kvs) =
     (truthy (map_of kvs ''id'')
      \<and> (truthy (map_of kvs ''imageUrl'') \<or> truthy (map_of kvs ''dataUrl'')))"
| "carriesIdAndUrl _ = False"

definition importable :: "json \<Rightarrow> bool" where
  "importable doc =
     (case timelineEntries doc of None \<Rightarrow> False | Some xs \<Rightarrow> list_all carriesIdAndUrl xs)"

fun isSetPhotos :: "action \<Rightarrow> bool" where
  "isSetPhotos (SetPhotos _) = True"
| "isSetPhotos _ = False"

fun touchesImages :: "action \<Rightarrow> bool" where
  "touchesImages (AppendPhoto _) = True"
| "touchesImages (StartUpload _ _) = True"
| "touchesImages _ = False"

section \<open>Share links (src/App.tsx, handleShare and loadTimeline)\<close>

definition statusName :: "PhotoStatus \<Rightarrow> string" where
  "statusName s =
     (case s of Idle \<Rightarrow> ''idle'' | Pending \<Rightarrow> ''pending'' | Done \<Rightarrow> ''done''
      | Error \<Rightarrow> ''error'' | Uploading \<Rightarrow> ''uploading'')"

definition optionalKey :: "string \<Rightarrow> string option \<Rightarrow> (string \<times> json) list" where
  "optionalKey key v = (case v of None \<Rightarrow> [] | Some s \<Rightarrow> [(key, JStr s)])"

text \<open>
  A photo as \<^verbatim>\<open>JSON.stringify\<close> sees it: the keys that are not undefined, with
  their string values, here in the order of the interface.
\<close>

definition photoToJson :: "Photo \<Rightarrow> json" where
  "photoToJson p =
     JObj ([(''id'', JStr (id_photo p)), (''imageUrl'', JStr (imageUrl p)),
            (''date'', JStr (date p)), (''message'', JStr (message p)),
            (''status'', JStr (statusName (status p)))]
           @ optionalKey ''generatedUrl'' (generatedUrl p)
           @ optionalKey ''error'' (error p)
           @ optionalKey ''localDataUrl'' (localDataUrl p))"

text \<open>
  The platform and library functions of the share link: \<^verbatim>\<open>JSON.stringify\<close> and
  \<^verbatim>\<open>JSON.parse\<close>, pako's \<^verbatim>\<open>deflate\<close> (to bytes) and \<^verbatim>\<open>inflate\<close> (to a string),
  \<^verbatim>\<open>btoa\<close> and \<^verbatim>\<open>atob\<close>; and, for the other load path, the fetch of a timeline URL
  (the response's \<^verbatim>\<open>ok\<close> and its body as JSON).
\<close>

record Codec =
  JSON_stringify :: "json \<Rightarrow> string"
  JSON_parse_text :: "string \<Rightarrow> thrown + json"
  deflate :: "string \<Rightarrow> nat list"
  inflate :: "nat list \<Rightarrow> thrown + string"
  btoa :: "string \<Rightarrow> string"
  atob :: "string \<Rightarrow> thrown + string"
  fetchTimeline :: "string \<Rightarrow> thrown + bool \<times> (thrown + json)"

text \<open>Line 285: \<^verbatim>\<open>photos.map(({ localDataUrl, ...rest }) => rest)\<close>\<close>

definition photosForSharing :: "Photo list \<Rightarrow> Photo list" where
  "photosForSharing photos = map (\<lambda>p. p\<lparr>localDataUrl := None\<rparr>) photos"

text \<open>
  Lines 279-300: the value of the \<^verbatim>\<open>data\<close> parameter of the link, or no link (an alert)
  for the empty list. \<^verbatim>\<open>String.fromCharCode(byte)\<close> is \<open>char_of\<close>.
\<close>

definition handleShare :: "Codec \<Rightarrow> Photo list \<Rightarrow> string option" where
  "handleShare cd photos =
     (if photos = [] then None
      else
        (let jsonString = JSON_stringify cd (JArr (map photoToJson (photosForSharing photos)));
             compressed = deflate cd jsonString;
             encoded = btoa cd (map char_of compressed)
         in Some encoded))"

text \<open>Line 74: the test of a timeline fetched from a URL.\<close>

definition entryCheckCloud :: "json \<Rightarrow> thrown + bool" where
  "entryCheckCloud p =
     (case getProp p ''id'' of
        Inl e \<Rightarrow> Inl e
      | Inr pid \<Rightarrow>
          if \<not> truthy pid then Inr False
          else (case getProp p ''imageUrl'' of
                  Inl e \<Rightarrow> Inl e
                | Inr url \<Rightarrow> Inr (truthy url)))"

fun everyEntryCloud :: "json list \<Rightarrow> thrown + bool" where
  "everyEntryCloud [] = Inr True"
| "everyEntryCloud (p # ps) =
     (case entryCheckCloud p of
        Inl e \<Rightarrow> Inl e
      | Inr ok \<Rightarrow> if ok then everyEntryCloud ps else Inr False)"

text \<open>
  Lines 62-95: the value given to \<^verbatim>\<open>setPhotos\<close>, if any. The parameters are the two
  query parameters; an empty or missing one is falsy. \<^verbatim>\<open>c.charCodeAt(0)\<close> is
  \<open>of_char\<close>. The \<^verbatim>\<open>data\<close> branch adopts whatever the text parses to.
\<close>

definition loadTimeline :: "Codec \<Rightarrow> string option \<Rightarrow> string option \<Rightarrow> json option" where
  "loadTimeline cd loadFromUrl dataParam =
     (if orElse loadFromUrl [] \<noteq> [] then
        (case fetchTimeline cd (orElse loadFromUrl []) of
           Inl e \<Rightarrow> None
         | Inr (ok, body) \<Rightarrow>
             if \<not> ok then None
             else (case body of
                     Inl e \<Rightarrow> None
                   | Inr parsedPhotos \<Rightarrow>
                       (case arrayElements (Some parsedPhotos) of
                          None \<Rightarrow> None
                        | Some xs \<Rightarrow>
                            (case everyEntryCloud xs of
                               Inl e \<Rightarrow> None
                             | Inr valid \<Rightarrow> if valid then Some parsedPhotos else None))))
      else if orElse dataParam [] \<noteq> [] then
        (case atob cd (orElse dataParam []) of
           Inl e \<Rightarrow> None
         | Inr decodedBinaryString \<Rightarrow>
             (let uint8array = map of_char decodedBinaryString
              in case inflate cd uint8array of
                   Inl e \<Rightarrow> None
                 | Inr decompressed \<Rightarrow>
                     (case JSON_parse_text cd decompressed of
                        Inl e \<Rightarrow> None
                      | Inr parsedPhotos \<Rightarrow> Some parsedPhotos)))
      else None)"

section \<open>Reading effect traces\<close>

text \<open>The attempt numbers of the model calls in a trace, in order.\<close>

fun modelCalls :: "effect list \<Rightarrow> nat list" where
  "modelCalls [] = []"
| "modelCalls (ModelCall n # es) = n # modelCalls es"
| "modelCalls (_ # es) = modelCalls es"

text \<open>
  The retry policy in the spec's words: attempts \<open>1, ..., k\<close>, and after each failed
  attempt \<open>n < k\<close> a wait of \<open>1000 * 2^(n-1)\<close> milliseconds before the next one.
\<close>

definition retryTrace :: "nat \<Rightarrow> effect list" where
  "retryTrace k =
     concat (map (\<lambda>n. [ModelCall n, Wait (1000 * 2 ^ (n - 1))]) [1..<k]) @ [ModelCall k]"

section \<open>Concrete inputs\<close>

definition photoA :: Photo where
  "photoA = \<lparr>id_photo = ''a'', imageUrl = ''http://x/a.png'', date = ''2020'',
     message = ''beach'', status = Idle, generatedUrl = None, error = None,
     localDataUrl = None\<rparr>"

definition photoB :: Photo where
  "photoB = \<lparr>id_photo = ''b'', imageUrl = ''http://x/b.png'', date = ''2021'',
     message = ''hills'', status = Idle, generatedUrl = None, error = None,
     localDataUrl = None\<rparr>"

definition textOnlyResponse :: GenerateContentResponse where
  "textOnlyResponse =
     \<lparr>candidates = Some [\<lparr>content = Some \<lparr>parts = Some
        [\<lparr>inlineData = None, partText = Some ''I cannot edit this photo.''\<rparr>]\<rparr>\<rparr>],
      responseText = Some ''I cannot edit this photo.''\<rparr>"

definition imageResponse :: GenerateContentResponse where
  "imageResponse =
     \<lparr>candidates = Some [\<lparr>content = Some \<lparr>parts = Some
        [\<lparr>inlineData = None, partText = Some ''Here it is.''\<rparr>,
         \<lparr>inlineData = Some \<lparr>mimeType = ''image/png'', data = ''QUJD''\<rparr>,
          partText = None\<rparr>]\<rparr>\<rparr>],
      responseText = Some ''Here it is.''\<rparr>"

text \<open>A failure with the signature of an internal error, and one without.\<close>

definition internal500 :: thrown where
  "internal500 = ErrorObj (''{'' @ [CHR 0x22] @ ''code'' @ [CHR 0x22] @ '':500}'')"

definition badRequest :: thrown where
  "badRequest = ErrorObj ''API key not valid''"

text \<open>
  Services in which every fetch and upload succeeds; the model's answers are the
  parameter.
\<close>

definition servicesWith :: "(nat \<Rightarrow> thrown + GenerateContentResponse) \<Rightarrow> Services" where
  "servicesWith gen =
     \<lparr>keyConfigured = True,
      fetchImage = (\<lambda>u. Inr \<lparr>img_ok = True, img_statusText = ''OK'',
                              img_dataUrl = Inr ''data:image/png;base64,AAAA''\<rparr>),
      generateContent = (\<lambda>imagePart prompt. gen),
      postImage = (\<lambda>d. Inr \<lparr>up_ok = True, up_text = [],
                             up_url = Inr ''http://blob/g.png''\<rparr>)\<rparr>"

definition twiceInternalThenImage :: "nat \<Rightarrow> thrown + GenerateContentResponse" where
  "twiceInternalThenImage n = (if n < 3 then Inl internal500 else Inr imageResponse)"

definition internalThenBadRequest :: "nat \<Rightarrow> thrown + GenerateContentResponse" where
  "internalThenBadRequest n = (if n < 2 then Inl internal500 else Inl badRequest)"

definition alwaysTextOnly :: "nat \<Rightarrow> thrown + GenerateContentResponse" where
  "alwaysTextOnly n = Inr textOnlyResponse"

text \<open>An entry in status error whose message is empty, as a loaded timeline may hold.\<close>

definition photoE :: Photo where
  "photoE = \<lparr>id_photo = ''e'', imageUrl = ''http://x/e.png'', date = ''2019'',
     message = [], status = Error, generatedUrl = None, error = Some ''boom'',
     localDataUrl = None\<rparr>"

text \<open>
  Two idle entries on which the Generate button is disabled: one with an empty message,
  one with an empty date.
\<close>

definition photoI :: Photo where
  "photoI = \<lparr>id_photo = ''i'', imageUrl = ''http://x/i.png'', date = ''2018'',
     message = [], status = Idle, generatedUrl = None, error = None,
     localDataUrl = None\<rparr>"

definition photoD :: Photo where
  "photoD = \<lparr>id_photo = ''d'', imageUrl = ''http://x/d.png'', date = [],
     message = ''snow'', status = Idle, generatedUrl = None, error = None,
     localDataUrl = None\<rparr>"

definition alwaysImage :: "nat \<Rightarrow> thrown + GenerateContentResponse" where
  "alwaysImage n = Inr imageResponse"



text \<open>
  A printer without escapes, standing in for the text of a JSON document in the examples.
\<close>

fun showJson :: "json \<Rightarrow> string"
  and showElements :: "json list \<Rightarrow> string"
  and showMembers :: "(string \<times> json) list \<Rightarrow> string" where
  "showJson JNull = ''null''"
| "showJson (JBool b) = (if b then ''true'' else ''false'')"
| "showJson (JNum n) = (if n = 0 then ''0'' else ''1'')"
| "showJson (JStr s) = [CHR 0x22] @ s @ [CHR 0x22]"
| "showJson (JArr xs) = ''['' @ showElements xs @ '']''"
| "showJson (JObj kvs) = ''{'' @ showMembers kvs @ ''}''"
| "showElements [] = []"
| "showElements (x # xs) = showJson x @ (if xs = [] then [] else '','' @ showElements xs)"
| "showMembers [] = []"
| "showMembers (kv # kvs) =
     [CHR 0x22] @ fst kv @ [CHR 0x22] @ '':'' @ showJson (snd kv)
     @ (if kvs = [] then [] else '','' @ showMembers kvs)"

text \<open>The legacy document of the spec's scenario.\<close>

definition legacyDoc :: json where
  "legacyDoc = JObj [(''photos'', JArr [JObj [(''id'', JStr ''a''),
                                              (''dataUrl'', JStr ''http://x/y.png'')]])]"

text \<open>
  File services that parse the text of the legacy document and nothing else, resize every
  image, and number the new entries.
\<close>

definition fileServices :: FileServices where
  "fileServices =
     \<lparr>JSON_parse = (\<lambda>t. if t = showJson legacyDoc then Inr legacyDoc
                          else Inl (ErrorObj ''Unexpected token'')),
      resizeImage = (\<lambda>file. Inr (''data:image/jpeg;base64,'' @ fileText file)),
      tempIdFor = (\<lambda>n. replicate (Suc n) CHR ''t'')\<rparr>"

definition goodJson :: File where
  "goodJson = \<lparr>fileName = ''good.json'', fileType = ''application/json'',
                fileText = showJson legacyDoc\<rparr>"

definition badJson :: File where
  "badJson = \<lparr>fileName = ''bad.json'', fileType = ''application/json'',
               fileText = ''{''\<rparr>"

definition picPng :: File where
  "picPng = \<lparr>fileName = ''pic.png'', fileType = ''image/png'', fileText = ''AAAA''\<rparr>"

text \<open>
  Library functions for the share link that invert each other: the bytes of the text as
  its compression, the binary string as its own base64 form, and a parser that knows the
  text of one document.
\<close>

definition plainCodec :: "json \<Rightarrow> Codec" where
  "plainCodec doc =
     \<lparr>JSON_stringify = showJson,
      JSON_parse_text = (\<lambda>t. if t = showJson doc then Inr doc
                              else Inl (ErrorObj ''Unexpected token'')),
      deflate = map of_char,
      inflate = (\<lambda>bytes. Inr (map char_of bytes)),
      btoa = (\<lambda>s. s),
      atob = Inr,
      fetchTimeline = (\<lambda>u. Inl (ErrorObj ''Failed to fetch''))\<rparr>"

text \<open>An entry whose upload was rejected: it keeps its local preview.\<close>

definition photoU :: Photo where
  "photoU = \<lparr>id_photo = ''u'', imageUrl = [], date = [], message = [], status = Error,
     generatedUrl = None, error = Some ''Upload failed.'',
     localDataUrl = Some ''data:image/jpeg;base64,AAAA''\<rparr>"

definition sharedU :: json where
  "sharedU = JArr (map photoToJson (photosForSharing [photoU]))"

declare retryLoop.simps [simp del]

declare includes_str.simps [simp del]

section \<open>Shared lemmas on merges\<close>

lemma applyMerge_map:
  "applyMerge i m prev = map (\<lambda>p. if id_photo p = i then mergeEntry m p else p) prev"
  by (cases m)
     (simp_all add: uploadResolved_def uploadRejected_def handleUpdatePhoto_def
        markPending_def generationDone_def generationFailed_def)

lemma spreadUpdates_id: "id_photo (spreadUpdates p u) = id_photo p"
  by (simp add: spreadUpdates_def Let_def split: option.splits)

lemma mergeEntry_id: "id_photo (mergeEntry m p) = id_photo p"
  by (cases m) (simp_all add: spreadUpdates_id)

lemma applyMerge_absent:
  "i \<notin> id_photo ` set prev \<Longrightarrow> applyMerge i m prev = prev"
  unfolding applyMerge_map by (induction prev) auto

lemma handleDeletePhoto_absent: "i \<notin> id_photo ` set (handleDeletePhoto i photos)"
  by (auto simp: handleDeletePhoto_def)

lemma applyMerge_ids: "map id_photo (applyMerge i m prev) = map id_photo prev"
  unfolding applyMerge_map by (induction prev) (auto simp: mergeEntry_id)

section \<open>Shared lemmas on the retry loop\<close>

lemma retryLoop_3: "retryLoop gen 3 = ([ModelCall 3], gen 3)"
  by (subst retryLoop.simps) (simp add: maxRetries_def split: sum.splits)

lemma retryLoop_2:
  "retryLoop gen 2 =
     (case gen 2 of
        Inr r \<Rightarrow> ([ModelCall 2], Inr r)
      | Inl e \<Rightarrow> if isInternalError (errorMessageOf e)
                 then ([ModelCall 2, Wait 2000, ModelCall 3], gen 3)
                 else ([ModelCall 2], Inl e))"
  by (subst retryLoop.simps)
     (simp add: maxRetries_def initialDelay_def retryLoop_3 Let_def split: sum.splits)

lemma retryLoop_1:
  "retryLoop gen (Suc 0) =
     (case gen (Suc 0) of
        Inr r \<Rightarrow> ([ModelCall (Suc 0)], Inr r)
      | Inl e \<Rightarrow> if isInternalError (errorMessageOf e)
                 then (ModelCall (Suc 0) # Wait 1000 # fst (retryLoop gen 2), snd (retryLoop gen 2))
                 else ([ModelCall (Suc 0)], Inl e))"
  by (subst retryLoop.simps)
     (simp add: maxRetries_def initialDelay_def Let_def numeral_2_eq_2 split: sum.splits)

lemma retryTrace_simps:
  "retryTrace (Suc 0) = [ModelCall (Suc 0)]"
  "retryTrace 2 = [ModelCall 1, Wait 1000, ModelCall 2]"
  "retryTrace 3 = [ModelCall 1, Wait 1000, ModelCall 2, Wait 2000, ModelCall 3]"
  by (simp_all add: retryTrace_def upt_rec numeral_2_eq_2 numeral_3_eq_3)

text \<open>The shape of every run of the loop from attempt 1.\<close>

lemma retryLoop_shape:
  fixes gen :: "nat \<Rightarrow> thrown + 'r"
  shows "\<exists>k. 1 \<le> k \<and> k \<le> 3
     \<and> retryLoop gen 1 = (retryTrace k, gen k)
     \<and> (\<forall>n. 1 \<le> n \<and> n < k \<longrightarrow> (\<exists>e. gen n = Inl e \<and> isInternalError (errorMessageOf e)))
     \<and> (k < 3 \<longrightarrow> (\<forall>e. gen k = Inl e \<longrightarrow> \<not> isInternalError (errorMessageOf e)))"
proof -
  let ?retry = "\<lambda>n. \<exists>e. gen n = Inl e \<and> isInternalError (errorMessageOf e)"
  consider (one) "\<not> ?retry 1" | (two) "?retry 1" "\<not> ?retry 2" | (three) "?retry 1" "?retry 2"
    by blast
  then show ?thesis
  proof cases
    case one
    then have "retryLoop gen 1 = ([ModelCall 1], gen 1)"
      by (auto simp: retryLoop_1 split: sum.splits)
    with one show ?thesis
      by (intro exI[of _ 1]) (auto simp: retryTrace_simps)
  next
    case two
    then have "retryLoop gen 1 = ([ModelCall 1, Wait 1000, ModelCall 2], gen 2)"
      by (auto simp: retryLoop_1 retryLoop_2 split: sum.splits)
    with two show ?thesis
    proof (intro exI[of _ 2] conjI allI impI)
      fix n :: nat assume "1 \<le> n \<and> n < 2"
      then have "n = 1" by arith
      with two show "\<exists>e. gen n = Inl e \<and> isInternalError (errorMessageOf e)" by simp
    qed (use two in \<open>auto simp: retryTrace_simps\<close>)
  next
    case three
    then have "retryLoop gen 1 = ([ModelCall 1, Wait 1000, ModelCall 2, Wait 2000, ModelCall 3], gen 3)"
      by (auto simp: retryLoop_1 retryLoop_2 split: sum.splits)
    with three show ?thesis
    proof (intro exI[of _ 3] conjI allI impI)
      fix n :: nat assume "1 \<le> n \<and> n < 3"
      then have "n = 1 \<or> n = 2" by arith
      with three show "\<exists>e. gen n = Inl e \<and> isInternalError (errorMessageOf e)" by auto
    qed (use three in \<open>auto simp: retryTrace_simps\<close>)
  qed
qed

lemma modelCalls_retryTrace:
  "1 \<le> k \<Longrightarrow> k \<le> 3 \<Longrightarrow> modelCalls (retryTrace k) = [1..<Suc k]"
proof -
  assume "1 \<le> k" "k \<le> 3"
  then have "k = Suc 0 \<or> k = 2 \<or> k = 3" by arith
  moreover have "modelCalls (retryTrace (Suc 0)) = [1..<Suc (Suc 0)]"
    by (simp add: retryTrace_simps upt_conv_Cons)
  moreover have "modelCalls (retryTrace 2) = [1..<Suc 2]"
    by (simp add: retryTrace_simps upt_conv_Cons)
  moreover have "modelCalls (retryTrace 3) = [1..<Suc 3]"
    by (simp add: retryTrace_simps upt_conv_Cons)
  ultimately show ?thesis by blast
qed


lemma callGeminiWithRetry_True: "callGeminiWithRetry True gen = retryLoop gen 1"
  by (simp add: callGeminiWithRetry_def getGeminiClient_def)

lemma callGeminiWithRetry_False: "fst (callGeminiWithRetry False gen) = []"
  by (simp add: callGeminiWithRetry_def getGeminiClient_def)

lemma internal500_internal: "isInternalError (errorMessageOf internal500)"
  by (simp add: isInternalError_def errorMessageOf_def internal500_def includes_str.simps)

lemma badRequest_plain: "\<not> isInternalError (errorMessageOf badRequest)"
  by (simp add: isInternalError_def errorMessageOf_def badRequest_def includes_str.simps)

lemma includes_str_prefix: "prefix search s \<Longrightarrow> includes_str s search"
  by (cases s) (auto simp: includes_str.simps)

lemma includes_str_append: "includes_str (a @ t @ b) t"
proof (induction a)
  case Nil
  show ?case by (simp add: includes_str_prefix)
next
  case (Cons c a)
  then show ?case by (simp add: includes_str.simps)
qed

lemma includes_str_iff: "includes_str s search \<longleftrightarrow> (\<exists>a b. s = a @ search @ b)"
proof
  assume "includes_str s search"
  then show "\<exists>a b. s = a @ search @ b"
  proof (induction s)
    case Nil
    then show ?case by (simp add: includes_str.simps)
  next
    case (Cons c s)
    then consider "prefix search (c # s)" | "includes_str s search"
      by (auto simp: includes_str.simps)
    then show ?case
    proof cases
      case 1
      then obtain b where "c # s = search @ b" by (auto simp: prefix_def)
      then have "c # s = [] @ search @ b" by simp
      then show ?thesis by blast
    next
      case 2
      with Cons.IH obtain a b where "s = a @ search @ b" by blast
      then have "c # s = (c # a) @ search @ b" by simp
      then show ?thesis by blast
    qed
  qed
next
  assume "\<exists>a b. s = a @ search @ b"
  then show "includes_str s search" by (auto simp: includes_str_append)
qed

lemma retryLoop_first_return:
  fixes gen :: "nat \<Rightarrow> thrown + 'r"
  assumes before: "\<forall>n. 1 \<le> n \<and> n < k \<longrightarrow> (\<exists>e. gen n = Inl e \<and> isInternalError (errorMessageOf e))"
    and k: "1 \<le> k" "k \<le> 3" and ret: "gen k = Inr response"
  shows "retryLoop gen 1 = (retryTrace k, Inr response)"
proof -
  obtain k' where k': "1 \<le> k'" "k' \<le> 3" "retryLoop gen 1 = (retryTrace k', gen k')"
      "\<forall>n. 1 \<le> n \<and> n < k' \<longrightarrow> (\<exists>e. gen n = Inl e \<and> isInternalError (errorMessageOf e))"
      "k' < 3 \<longrightarrow> (\<forall>e. gen k' = Inl e \<longrightarrow> \<not> isInternalError (errorMessageOf e))"
    using retryLoop_shape[of gen] by blast
  have "\<not> k < k'" using k'(4) k(1) ret by auto
  moreover have "\<not> k' < k"
  proof
    assume lt: "k' < k"
    with before k'(1) obtain e where "gen k' = Inl e" "isInternalError (errorMessageOf e)" by blast
    moreover from lt k(2) have "k' < 3" by simp
    ultimately show False using k'(5) by blast
  qed
  ultimately have "k' = k" by simp
  with k'(3) ret show ?thesis by simp
qed

lemma processGeminiResponse_no_image:
  "imagePartFromResponse response = None \<Longrightarrow>
     processGeminiResponse response =
       Inl (ErrorObj (textInsteadOfImage (orElse (responseText response) ''No text response received.'')))"
  by (simp add: processGeminiResponse_def)

lemma failed_after_pending:
  "list_all (\<lambda>p. id_photo p = i \<longrightarrow> status p = Error \<and> error p = Some msg)
     (generationFailed i msg (markPending i photos))"
  by (induction photos) (simp_all add: generationFailed_def markPending_def)

lemma matchDataUrl_png: "matchDataUrl ''data:image/png;base64,AAAA'' = Some (''image/png'', ''AAAA'')"
  by (simp add: matchDataUrl_def isWordChar_def isLineTerminator_def Let_def)

lemma textOnly_noimage: "imagePartFromResponse textOnlyResponse = None"
  by (simp add: imagePartFromResponse_def textOnlyResponse_def)

lemma generateTimelineImage_fetches_first:
  "\<exists>effs. fst (generateTimelineImage sv url msg) = FetchImage url # effs"
  by (simp add: generateTimelineImage_def Let_def split: sum.splits option.splits prod.splits)

lemma imageResponse_processed:
  "processGeminiResponse imageResponse = Inr ''data:image/png;base64,QUJD''"
  by (simp add: processGeminiResponse_def imagePartFromResponse_def imageResponse_def)

lemma handleGenerateImage_photoE:
  "handleGenerateImage (servicesWith alwaysImage) [photoE] ''e''
     = ([FetchImage ''http://x/e.png'', ModelCall 1, UploadImage ''data:image/png;base64,QUJD''],
        [MarkPending, GenerationDone ''http://blob/g.png''])"
  by (simp add: handleGenerateImage_def photoE_def generateTimelineImage_def servicesWith_def
        imageUrlToDataUrl_def matchDataUrl_png callGeminiWithRetry_True retryLoop_1
        alwaysImage_def imageResponse_processed uploadImageToCloud_def Let_def)

section \<open>Shared lemmas on the history\<close>







lemma foldl_merges_ids:
  "map id_photo (foldl (\<lambda>prev jm. applyMerge (fst jm) (snd jm) prev) photos later)
     = map id_photo photos"
  by (induction later arbitrary: photos) (simp_all add: applyMerge_ids)

section \<open>Shared lemmas on file import\<close>

lemma entryCheck_eq:
  "entryCheck p = (if p = JNull then Inl (ErrorObj (''Cannot read properties of null (reading id)''))
                   else Inr (carriesIdAndUrl p))"
  by (cases p) (auto simp: entryCheck_def)

lemma everyEntry_True: "everyEntry ps = Inr True \<longleftrightarrow> list_all carriesIdAndUrl ps"
  by (induction ps) (auto simp: entryCheck_eq)

lemma everyEntry_cases: "everyEntry ps = Inr True \<or> everyEntry ps = Inr False \<or> (\<exists>e. everyEntry ps = Inl e)"
  by (cases "everyEntry ps") auto

lemma photosToLoad_eq:
  "getProp doc ''photos'' = Inr f \<Longrightarrow>
   (case arrayElements f of Some xs \<Rightarrow> Some xs | None \<Rightarrow> arrayElements (Some doc)) = timelineEntries doc"
  by (cases doc) (auto split: option.splits)

lemma timelineEntries_null: "getProp doc ''photos'' = Inl e \<Longrightarrow> timelineEntries doc = None"
  by (cases doc) auto

lemma loadJsonFile_eq:
  "loadJsonFile sv file =
     (case JSON_parse sv (fileText file) of
        Inl e \<Rightarrow> (False, [Alert (couldNotLoad (fileName file))])
      | Inr doc \<Rightarrow>
          if importable doc
          then (True, [SetPhotos (map migratePhoto (the (timelineEntries doc))),
                       Alert (''Successfully loaded timeline from '' @ fileName file)])
          else (False, [Alert (couldNotLoad (fileName file))]))"
proof (cases "JSON_parse sv (fileText file)")
  case (Inl e)
  then show ?thesis by (simp add: loadJsonFile_def)
next
  case (Inr doc)
  show ?thesis
  proof (cases "getProp doc ''photos''")
    case (Inl e)
    with Inr timelineEntries_null[OF Inl] show ?thesis
      by (simp add: loadJsonFile_def importable_def)
  next
    case f: (Inr f)
    note sel = photosToLoad_eq[OF f]
    show ?thesis
    proof (cases "timelineEntries doc")
      case None
      with Inr f sel show ?thesis by (simp add: loadJsonFile_def importable_def)
    next
      case (Some xs)
      with Inr f sel everyEntry_True[of xs] everyEntry_cases[of xs] show ?thesis
        by (auto simp: loadJsonFile_def importable_def Let_def)
    qed
  qed
qed




lemma parse_good: "JSON_parse fileServices (fileText goodJson) = Inr legacyDoc"
  by (simp add: fileServices_def goodJson_def)

lemma parse_bad: "JSON_parse fileServices (fileText badJson) = Inl (ErrorObj ''Unexpected token'')"
  by (simp add: fileServices_def badJson_def legacyDoc_def)

lemma processImages_no_SetPhotos: "list_all (\<lambda>a. \<not> isSetPhotos a) (processImages sv n files)"
  by (induction files arbitrary: n) (auto simp: Let_def split: sum.splits)

lemma loadJsonFile_no_images: "list_all (\<lambda>a. \<not> touchesImages a) (snd (loadJsonFile sv file))"
  by (auto simp: loadJsonFile_eq split: sum.splits)

section \<open>Shared lemmas on share links\<close>

lemma bytes_back: "list_all (\<lambda>b. b < 256) bytes \<Longrightarrow> map of_char (map char_of bytes) = (bytes :: nat list)"
  by (induction bytes) simp_all

lemma statusName_inj: "statusName s = statusName t \<Longrightarrow> s = t"
  by (cases s; cases t) (simp_all add: statusName_def)

lemma optionalKeys_inj:
  "optionalKey ''generatedUrl'' a @ optionalKey ''error'' b @ optionalKey ''localDataUrl'' c
     = optionalKey ''generatedUrl'' a' @ optionalKey ''error'' b' @ optionalKey ''localDataUrl'' c'
   \<Longrightarrow> a = a' \<and> b = b' \<and> c = c'"
  by (cases a; cases b; cases c; cases a'; cases b'; cases c') (simp_all add: optionalKey_def)

lemma photoToJson_inj: "photoToJson p = photoToJson q \<Longrightarrow> p = q"
proof -
  assume "photoToJson p = photoToJson q"
  then have "id_photo p = id_photo q" "imageUrl p = imageUrl q" "date p = date q"
      "message p = message q" "statusName (status p) = statusName (status q)"
      "optionalKey ''generatedUrl'' (generatedUrl p) @ optionalKey ''error'' (error p)
         @ optionalKey ''localDataUrl'' (localDataUrl p)
       = optionalKey ''generatedUrl'' (generatedUrl q) @ optionalKey ''error'' (error q)
         @ optionalKey ''localDataUrl'' (localDataUrl q)"
    by (simp_all add: photoToJson_def)
  then show "p = q"
    using statusName_inj optionalKeys_inj by (intro Photo.equality) auto
qed

lemma map_photoToJson_inj: "map photoToJson qs = map photoToJson ps \<longleftrightarrow> qs = ps"
proof
  show "map photoToJson qs = map photoToJson ps \<Longrightarrow> qs = ps"
  proof (induction qs arbitrary: ps)
    case Nil then show ?case by simp
  next
    case (Cons q qs)
    then show ?case by (cases ps) (auto dest: photoToJson_inj)
  qed
qed simp

lemma strip_localDataUrl_id: "p\<lparr>localDataUrl := None\<rparr> = p \<longleftrightarrow> localDataUrl p = None"
  by (cases p) auto

lemma photosForSharing_id:
  "photosForSharing photos = photos \<longleftrightarrow> list_all (\<lambda>p. localDataUrl p = None) photos"
  by (induction photos) (simp_all add: photosForSharing_def strip_localDataUrl_id)

lemma map_char_of_of_char: "map char_of (map (of_char :: char \<Rightarrow> nat) s) = s"
  by (induction s) simp_all

lemma showJson_nonempty: "showJson (JArr xs) \<noteq> []"
  by simp

lemma handleShare_plain:
  "photos \<noteq> [] \<Longrightarrow>
   handleShare (plainCodec doc) photos
     = Some (showJson (JArr (map photoToJson (photosForSharing photos))))"
  by (simp add: handleShare_def plainCodec_def Let_def map_char_of_of_char)

lemma loadTimeline_plain:
  "loadTimeline (plainCodec (JArr xs)) None (Some (showJson (JArr xs))) = Some (JArr xs)"
  using showJson_nonempty[of xs]
  by (simp add: loadTimeline_def plainCodec_def orElse_def Let_def map_char_of_of_char
        del: showJson.simps)

section \<open>Claims\<close>




text \<open>
  C2. The model is called at most three times. With a client, the run is attempts
  \<open>1, ..., k\<close> for some \<open>k \<le> 3\<close>, with a wait of exactly \<open>1000 * 2^(n-1)\<close> ms after each
  attempt \<open>n < k\<close>; every attempt before the last failed with an internal-error
  signature in its message; the outcome of attempt \<open>k\<close> is what the function returns or
  throws, and when \<open>k < 3\<close> the last attempt was a success or a failure without the
  signature. Two internal failures and a success at the third attempt return that
  success.
\<close>

theorem callGeminiWithRetry_policy:
  fixes gen :: "nat \<Rightarrow> thrown + 'r"
  shows
    "length (modelCalls (fst (callGeminiWithRetry keyOk gen))) \<le> 3
     \<and> (\<exists>k. 1 \<le> k \<and> k \<le> 3
           \<and> callGeminiWithRetry True gen = (retryTrace k, gen k)
           \<and> modelCalls (retryTrace k) = [1..<Suc k]
           \<and> (\<forall>n. 1 \<le> n \<and> n < k \<longrightarrow>
                 (\<exists>e. gen n = Inl e \<and> isInternalError (errorMessageOf e)))
           \<and> (k < 3 \<longrightarrow> (\<forall>e. gen k = Inl e \<longrightarrow> \<not> isInternalError (errorMessageOf e))))
     \<and> (\<forall>e1 e2 r. gen 1 = Inl e1 \<and> isInternalError (errorMessageOf e1)
           \<and> gen 2 = Inl e2 \<and> isInternalError (errorMessageOf e2) \<and> gen 3 = Inr r \<longrightarrow>
           callGeminiWithRetry True gen
             = ([ModelCall 1, Wait 1000, ModelCall 2, Wait 2000, ModelCall 3], Inr r))"
proof (intro conjI)
  obtain k where k: "1 \<le> k" "k \<le> 3" "retryLoop gen 1 = (retryTrace k, gen k)"
      "\<forall>n. 1 \<le> n \<and> n < k \<longrightarrow> (\<exists>e. gen n = Inl e \<and> isInternalError (errorMessageOf e))"
      "k < 3 \<longrightarrow> (\<forall>e. gen k = Inl e \<longrightarrow> \<not> isInternalError (errorMessageOf e))"
    using retryLoop_shape[of gen] by blast
  have mc: "modelCalls (retryTrace k) = [1..<Suc k]"
    using k(1,2) by (rule modelCalls_retryTrace)
  show "length (modelCalls (fst (callGeminiWithRetry keyOk gen))) \<le> 3"
  proof (cases keyOk)
    case True
    have "length (modelCalls (fst (retryLoop gen 1))) = k"
      unfolding k(3) fst_conv mc by simp
    with True k(2) show ?thesis by (simp add: callGeminiWithRetry_True)
  next
    case False
    then show ?thesis by (simp add: callGeminiWithRetry_False)
  qed
  show "\<exists>k. 1 \<le> k \<and> k \<le> 3
           \<and> callGeminiWithRetry True gen = (retryTrace k, gen k)
           \<and> modelCalls (retryTrace k) = [1..<Suc k]
           \<and> (\<forall>n. 1 \<le> n \<and> n < k \<longrightarrow>
                 (\<exists>e. gen n = Inl e \<and> isInternalError (errorMessageOf e)))
           \<and> (k < 3 \<longrightarrow> (\<forall>e. gen k = Inl e \<longrightarrow> \<not> isInternalError (errorMessageOf e)))"
    unfolding callGeminiWithRetry_True
    by (rule exI[of _ k]) (intro conjI k mc)
  show "\<forall>e1 e2 r. gen 1 = Inl e1 \<and> isInternalError (errorMessageOf e1)
           \<and> gen 2 = Inl e2 \<and> isInternalError (errorMessageOf e2) \<and> gen 3 = Inr r \<longrightarrow>
           callGeminiWithRetry True gen
             = ([ModelCall 1, Wait 1000, ModelCall 2, Wait 2000, ModelCall 3], Inr r)"
  proof (intro allI impI)
    fix e1 e2 r
    assume a: "gen 1 = Inl e1 \<and> isInternalError (errorMessageOf e1)
           \<and> gen 2 = Inl e2 \<and> isInternalError (errorMessageOf e2) \<and> gen 3 = Inr r"
    then have "retryLoop gen 2 = ([ModelCall 2, Wait 2000, ModelCall 3], Inr r)"
      by (simp add: retryLoop_2)
    with a show "callGeminiWithRetry True gen
             = ([ModelCall 1, Wait 1000, ModelCall 2, Wait 2000, ModelCall 3], Inr r)"
      by (simp add: callGeminiWithRetry_True retryLoop_1)
  qed
qed

theorem callGeminiWithRetry_policy_witness:
  "twiceInternalThenImage 1 = Inl internal500
   \<and> isInternalError (errorMessageOf internal500)
   \<and> twiceInternalThenImage 2 = Inl internal500
   \<and> twiceInternalThenImage 3 = Inr imageResponse
   \<and> callGeminiWithRetry True twiceInternalThenImage
       = ([ModelCall 1, Wait 1000, ModelCall 2, Wait 2000, ModelCall 3], Inr imageResponse)
   \<and> \<not> isInternalError (errorMessageOf badRequest)
   \<and> callGeminiWithRetry True internalThenBadRequest
       = ([ModelCall 1, Wait 1000, ModelCall 2], Inl badRequest)"
proof -
  have "callGeminiWithRetry True internalThenBadRequest
       = ([ModelCall 1, Wait 1000, ModelCall 2], Inl badRequest)"
    by (simp add: callGeminiWithRetry_True retryLoop_1 retryLoop_2 internalThenBadRequest_def
          internal500_internal badRequest_plain)
  then show ?thesis
    using callGeminiWithRetry_policy[of True twiceInternalThenImage]
    by (simp add: twiceInternalThenImage_def internal500_internal badRequest_plain)
qed

text \<open>
  C3 as the spec states it fails. For the empty list \<^verbatim>\<open>handleShare\<close> makes no link,
  so there is nothing to decode; and the list that is encoded is the list without the
  \<^verbatim>\<open>localDataUrl\<close> fields, so an entry that has one (its upload was rejected) does not
  come back as it was.
\<close>

theorem share_link_counterexample:
  "handleShare (plainCodec sharedU) [] = None
   \<and> loadTimeline (plainCodec sharedU) None (handleShare (plainCodec sharedU) []) = None
   \<and> loadTimeline (plainCodec sharedU) None (handleShare (plainCodec sharedU) [photoU])
       = Some (JArr [photoToJson (photoU\<lparr>localDataUrl := None\<rparr>)])
   \<and> JArr [photoToJson (photoU\<lparr>localDataUrl := None\<rparr>)] \<noteq> JArr [photoToJson photoU]"
proof -
  have a: "handleShare (plainCodec sharedU) [] = None"
    by (simp add: handleShare_def)
  have b: "loadTimeline (plainCodec sharedU) None None = None"
    by (simp add: loadTimeline_def orElse_def)
  have c: "loadTimeline (plainCodec sharedU) None (handleShare (plainCodec sharedU) [photoU])
       = Some sharedU"
    unfolding sharedU_def by (simp add: handleShare_plain loadTimeline_plain del: showJson.simps)
  have d: "sharedU = JArr [photoToJson (photoU\<lparr>localDataUrl := None\<rparr>)]"
    by (simp add: sharedU_def photosForSharing_def)
  have e: "JArr [photoToJson (photoU\<lparr>localDataUrl := None\<rparr>)] \<noteq> JArr [photoToJson photoU]"
    by (simp add: photoToJson_def photoU_def optionalKey_def)
  show ?thesis using a b c d e by simp
qed

text \<open>
  C3, amended. For a non-empty list, where on the data at hand \<^verbatim>\<open>JSON.parse\<close> inverts
  \<^verbatim>\<open>JSON.stringify\<close>, \<^verbatim>\<open>inflate\<close> inverts \<^verbatim>\<open>deflate\<close> (whose result is bytes) and
  \<^verbatim>\<open>atob\<close> inverts \<^verbatim>\<open>btoa\<close> (whose result is not empty): the link decodes to the
  JSON form of the list without its \<^verbatim>\<open>localDataUrl\<close> fields, which is the JSON form of
  no other list, and that list is the original one exactly when no entry has a
  \<^verbatim>\<open>localDataUrl\<close>.
\<close>

theorem share_link_round_trip:
  assumes ne: "photos \<noteq> []"
    and js: "jsonString = JSON_stringify cd (JArr (map photoToJson (photosForSharing photos)))"
    and bytes: "list_all (\<lambda>b. b < 256) (deflate cd jsonString)"
    and link: "link = btoa cd (map char_of (deflate cd jsonString))"
    and nonempty: "link \<noteq> []"
    and base64: "atob cd link = Inr (map char_of (deflate cd jsonString))"
    and pako: "inflate cd (deflate cd jsonString) = Inr jsonString"
    and parse: "JSON_parse_text cd jsonString = Inr (JArr (map photoToJson (photosForSharing photos)))"
  shows "handleShare cd photos = Some link
       \<and> loadTimeline cd None (handleShare cd photos)
           = Some (JArr (map photoToJson (photosForSharing photos)))
       \<and> (\<forall>qs. JArr (map photoToJson qs) = JArr (map photoToJson (photosForSharing photos))
                \<longleftrightarrow> qs = photosForSharing photos)
       \<and> (photosForSharing photos = photos \<longleftrightarrow> list_all (\<lambda>p. localDataUrl p = None) photos)"
proof (intro conjI allI)
  show hs: "handleShare cd photos = Some link"
    using ne by (simp add: handleShare_def Let_def js link)
  show "loadTimeline cd None (handleShare cd photos)
           = Some (JArr (map photoToJson (photosForSharing photos)))"
    using nonempty base64 pako parse bytes_back[OF bytes]
    by (simp add: hs loadTimeline_def orElse_def Let_def)
  show "JArr (map photoToJson qs) = JArr (map photoToJson (photosForSharing photos))
                \<longleftrightarrow> qs = photosForSharing photos" for qs
    by (simp add: map_photoToJson_inj)
  show "photosForSharing photos = photos \<longleftrightarrow> list_all (\<lambda>p. localDataUrl p = None) photos"
    by (rule photosForSharing_id)
qed

theorem share_link_round_trip_witness:
  "[photoA, photoU] \<noteq> []
   \<and> handleShare (plainCodec (JArr (map photoToJson (photosForSharing [photoA, photoU]))))
        [photoA, photoU]
       = Some (showJson (JArr (map photoToJson (photosForSharing [photoA, photoU]))))
   \<and> loadTimeline (plainCodec (JArr (map photoToJson (photosForSharing [photoA, photoU])))) None
        (handleShare (plainCodec (JArr (map photoToJson (photosForSharing [photoA, photoU]))))
           [photoA, photoU])
       = Some (JArr (map photoToJson (photosForSharing [photoA, photoU])))
   \<and> photosForSharing [photoA, photoU] = [photoA, photoU\<lparr>localDataUrl := None\<rparr>]"
proof -
  let ?doc = "JArr (map photoToJson (photosForSharing [photoA, photoU]))"
  let ?cd = "plainCodec ?doc"
  have ne: "[photoA, photoU] \<noteq> []" by simp
  have js: "showJson ?doc = JSON_stringify ?cd ?doc"
    by (simp add: plainCodec_def del: showJson.simps)
  have bytes: "list_all (\<lambda>b. b < 256) (deflate ?cd (showJson ?doc))"
    by (simp add: plainCodec_def list_all_iff del: showJson.simps)
  have link: "showJson ?doc = btoa ?cd (map char_of (deflate ?cd (showJson ?doc)))"
    by (simp add: plainCodec_def map_char_of_of_char del: showJson.simps)
  have nonempty: "showJson ?doc \<noteq> []"
    by (rule showJson_nonempty)
  have base64: "atob ?cd (showJson ?doc) = Inr (map char_of (deflate ?cd (showJson ?doc)))"
    by (simp add: plainCodec_def map_char_of_of_char del: showJson.simps)
  have pako: "inflate ?cd (deflate ?cd (showJson ?doc)) = Inr (showJson ?doc)"
    by (simp add: plainCodec_def map_char_of_of_char del: showJson.simps)
  have parse: "JSON_parse_text ?cd (showJson ?doc) = Inr ?doc"
    by (simp add: plainCodec_def del: showJson.simps)
  have s: "photosForSharing [photoA, photoU] = [photoA, photoU\<lparr>localDataUrl := None\<rparr>]"
    by (simp add: photosForSharing_def photoA_def)
  show ?thesis
    using share_link_round_trip[OF ne js bytes link nonempty base64 pako parse] ne s
    by blast
qed

text \<open>
  C4. Deleting the entry \<open>x\<close> leaves no entry with that id; any merge on \<open>x\<close> applied
  afterwards (upload resolved or rejected, generation done or failed, pending, edit)
  leaves the list as it is; and after any later merges, on any ids, the list still has no
  entry \<open>x\<close>.
\<close>

theorem delete_then_completion_is_noop:
  "applyMerge x m (handleDeletePhoto x photos) = handleDeletePhoto x photos
   \<and> x \<notin> id_photo ` set (handleDeletePhoto x photos)
   \<and> x \<notin> id_photo ` set (foldl (\<lambda>prev jm. applyMerge (fst jm) (snd jm) prev)
                              (handleDeletePhoto x photos) later)"
proof (intro conjI)
  show "applyMerge x m (handleDeletePhoto x photos) = handleDeletePhoto x photos"
    by (rule applyMerge_absent) (rule handleDeletePhoto_absent)
  show "x \<notin> id_photo ` set (handleDeletePhoto x photos)"
    by (rule handleDeletePhoto_absent)
  have "set (map id_photo (foldl (\<lambda>prev jm. applyMerge (fst jm) (snd jm) prev)
                              (handleDeletePhoto x photos) later))
        = set (map id_photo (handleDeletePhoto x photos))"
    by (simp only: foldl_merges_ids)
  then show "x \<notin> id_photo ` set (foldl (\<lambda>prev jm. applyMerge (fst jm) (snd jm) prev)
                              (handleDeletePhoto x photos) later)"
    using handleDeletePhoto_absent[of x photos] unfolding set_map by simp
qed

theorem delete_then_completion_is_noop_witness:
  "handleDeletePhoto ''a'' [photoA, photoB] = [photoB]
   \<and> applyMerge ''a'' (GenerationDone ''http://g/a.png'') (handleDeletePhoto ''a'' [photoA, photoB])
       = [photoB]
   \<and> ''a'' \<notin> id_photo ` set (foldl (\<lambda>prev jm. applyMerge (fst jm) (snd jm) prev)
                              (handleDeletePhoto ''a'' [photoA, photoB])
                              [(''a'', UploadRejected), (''b'', MarkPending)])"
  using delete_then_completion_is_noop
    [of "''a''" "GenerationDone ''http://g/a.png''" "[photoA, photoB]"
        "[(''a'', UploadRejected), (''b'', MarkPending)]"]
  by (simp add: handleDeletePhoto_def photoA_def photoB_def)



text \<open>
  C6 as the spec states it fails: only the first JSON file of the batch is tried. With a
  broken JSON file first, a valid timeline file second and an image, the valid timeline
  is not loaded and the image is processed.
\<close>

theorem later_json_file_is_not_tried_counterexample:
  "fst (loadJsonFile fileServices goodJson)
   \<and> handleFileSelect fileServices (Some [badJson, goodJson, picPng])
       = [Alert (couldNotLoad ''bad.json''),
          AppendPhoto (newPhoto ''t'' ''data:image/jpeg;base64,AAAA''),
          StartUpload ''t'' ''data:image/jpeg;base64,AAAA'']"
proof -
  have g: "loadJsonFile fileServices goodJson
      = (True, [SetPhotos (map migratePhoto (the (timelineEntries legacyDoc))),
                Alert (''Successfully loaded timeline from '' @ fileName goodJson)])"
    by (simp add: loadJsonFile_eq parse_good) (simp add: importable_def legacyDoc_def)
  have b: "loadJsonFile fileServices badJson = (False, [Alert (couldNotLoad ''bad.json'')])"
    by (simp add: loadJsonFile_eq parse_bad) (simp add: badJson_def)
  have "handleFileSelect fileServices (Some [badJson, goodJson, picPng])
       = [Alert (couldNotLoad ''bad.json''),
          AppendPhoto (newPhoto ''t'' ''data:image/jpeg;base64,AAAA''),
          StartUpload ''t'' ''data:image/jpeg;base64,AAAA'']"
    by (simp add: handleFileSelect_def b Let_def)
       (simp add: badJson_def goodJson_def picPng_def fileServices_def)
  with g show ?thesis by simp
qed

text \<open>
  C6, amended. When the first JSON file of the batch loads, the handler does what the load
  does and nothing touches an image file. When it does not load, the handler alerts and
  processes the image files; with no JSON file it processes the image files. Processing
  image files never replaces the list.
\<close>

theorem first_json_file_wins_over_images:
  assumes "imageFiles = filter (\<lambda>file. prefix ''image/'' (fileType file)) files"
    and "jsonFiles = filter (\<lambda>file. fileType file = ''application/json'') files"
  shows "(\<forall>file rest. jsonFiles = file # rest \<and> fst (loadJsonFile sv file) \<longrightarrow>
            handleFileSelect sv (Some files) = snd (loadJsonFile sv file)
            \<and> list_all (\<lambda>a. \<not> touchesImages a) (handleFileSelect sv (Some files)))
       \<and> (\<forall>file rest. jsonFiles = file # rest \<and> \<not> fst (loadJsonFile sv file) \<longrightarrow>
            handleFileSelect sv (Some files)
              = Alert (couldNotLoad (fileName file)) # processImages sv 0 imageFiles)
       \<and> (jsonFiles = [] \<longrightarrow> handleFileSelect sv (Some files) = processImages sv 0 imageFiles)
       \<and> list_all (\<lambda>a. \<not> isSetPhotos a) (processImages sv 0 imageFiles)"
proof (intro conjI allI impI)
  fix jf rest
  assume a: "jsonFiles = jf # rest \<and> fst (loadJsonFile sv jf)"
  then show "handleFileSelect sv (Some files) = snd (loadJsonFile sv jf)"
    using assms by (simp add: handleFileSelect_def Let_def)
  then show "list_all (\<lambda>a. \<not> touchesImages a) (handleFileSelect sv (Some files))"
    by (simp add: loadJsonFile_no_images)
next
  fix jf rest
  assume a: "jsonFiles = jf # rest \<and> \<not> fst (loadJsonFile sv jf)"
  then have "snd (loadJsonFile sv jf) = [Alert (couldNotLoad (fileName jf))]"
    by (auto simp: loadJsonFile_eq split: sum.splits if_splits)
  with a show "handleFileSelect sv (Some files)
              = Alert (couldNotLoad (fileName jf)) # processImages sv 0 imageFiles"
    using assms by (simp add: handleFileSelect_def Let_def)
next
  assume "jsonFiles = []"
  then show "handleFileSelect sv (Some files) = processImages sv 0 imageFiles"
    using assms by (simp add: handleFileSelect_def Let_def)
next
  show "list_all (\<lambda>a. \<not> isSetPhotos a) (processImages sv 0 imageFiles)"
    by (rule processImages_no_SetPhotos)
qed

theorem first_json_file_wins_over_images_witness:
  "[picPng] = filter (\<lambda>file. prefix ''image/'' (fileType file)) [picPng, goodJson]
   \<and> [goodJson] = filter (\<lambda>file. fileType file = ''application/json'') [picPng, goodJson]
   \<and> fst (loadJsonFile fileServices goodJson)
   \<and> handleFileSelect fileServices (Some [picPng, goodJson])
       = [SetPhotos [JObj [(''id'', JStr ''a''), (''dataUrl'', JStr ''http://x/y.png''),
                           (''imageUrl'', JStr ''http://x/y.png'')]],
          Alert ''Successfully loaded timeline from good.json'']"
proof -
  have i: "[picPng] = filter (\<lambda>file. prefix ''image/'' (fileType file)) [picPng, goodJson]"
    by (simp add: picPng_def goodJson_def)
  have j: "[goodJson] = filter (\<lambda>file. fileType file = ''application/json'') [picPng, goodJson]"
    by (simp add: picPng_def goodJson_def)
  have g: "loadJsonFile fileServices goodJson
       = (True, [SetPhotos [JObj [(''id'', JStr ''a''), (''dataUrl'', JStr ''http://x/y.png''),
                                 (''imageUrl'', JStr ''http://x/y.png'')]],
                 Alert ''Successfully loaded timeline from good.json''])"
    by (simp add: loadJsonFile_eq parse_good)
       (simp add: importable_def legacyDoc_def migratePhoto_def orJs_def goodJson_def)
  have "handleFileSelect fileServices (Some [picPng, goodJson])
          = snd (loadJsonFile fileServices goodJson)"
    using first_json_file_wins_over_images[OF i j, of fileServices] g by simp
  with i j g show ?thesis by simp
qed

text \<open>
  C7. The entry has a source image, the fetch of it gives a data URL, and the model's
  first return, at attempt \<open>k\<close> (every earlier attempt having failed with an internal
  error), is a response with no image part and the text \<open>t\<close>. Then the handler ends
  with the model call that returned the text (no later call, no upload), and the entry
  ends in status error with an error detail that contains \<open>t\<close>.
\<close>

theorem text_only_response_fails_without_retry:
  assumes found: "find (\<lambda>p. id_photo p = i) photos = Some photo"
    and url: "imageUrl photo \<noteq> []"
    and fetched: "imageUrlToDataUrl (fetchImage sv) (imageUrl photo) = Inr dataUrl"
    and matched: "matchDataUrl dataUrl = Some (mime, base64Data)"
    and key: "keyConfigured sv"
    and gen: "gen = generateContent sv \<lparr>mimeType = mime, data = base64Data\<rparr> (promptFor (message photo))"
    and before: "\<forall>n. 1 \<le> n \<and> n < k \<longrightarrow> (\<exists>e. gen n = Inl e \<and> isInternalError (errorMessageOf e))"
    and k: "1 \<le> k" "k \<le> 3"
    and ret: "gen k = Inr response"
    and noimg: "imagePartFromResponse response = None"
    and rtext: "responseText response = Some t" "t \<noteq> []"
    and msg: "msg = failedToGenerate (textInsteadOfImage t)"
  shows "handleGenerateImage sv photos i
           = (FetchImage (imageUrl photo) # retryTrace k, [MarkPending, GenerationFailed msg])
         \<and> modelCalls (FetchImage (imageUrl photo) # retryTrace k) = [1..<Suc k]
         \<and> includes_str msg t
         \<and> list_all (\<lambda>p. id_photo p = i \<longrightarrow> status p = Error \<and> error p = Some msg)
               (applyMerges i [MarkPending, GenerationFailed msg] photos)"
proof (intro conjI)
  have call: "callGeminiWithRetry (keyConfigured sv) gen = (retryTrace k, Inr response)"
    using key retryLoop_first_return[OF before k ret] by (simp add: callGeminiWithRetry_True)
  have proc: "processGeminiResponse response = Inl (ErrorObj (textInsteadOfImage t))"
    using noimg rtext by (simp add: processGeminiResponse_no_image orElse_def)
  have gti: "generateTimelineImage sv (imageUrl photo) (message photo)
      = (FetchImage (imageUrl photo) # retryTrace k, Inl (ErrorObj msg))"
    using fetched matched call proc
    by (simp add: generateTimelineImage_def gen[symmetric] Let_def errorMessageOf_def msg)
  show "handleGenerateImage sv photos i
           = (FetchImage (imageUrl photo) # retryTrace k, [MarkPending, GenerationFailed msg])"
    using found url gti by (simp add: handleGenerateImage_def Let_def handlerMessage_def)
  show "modelCalls (FetchImage (imageUrl photo) # retryTrace k) = [1..<Suc k]"
    using modelCalls_retryTrace[OF k] by simp
  have "msg = (''The AI model failed to generate an image. Details: ''
                @ ''The AI model responded with text instead of an image: '' @ [CHR 0x22])
              @ t @ [CHR 0x22]"
    by (simp add: msg failedToGenerate_def textInsteadOfImage_def)
  then show "includes_str msg t"
    by (simp only: includes_str_append)
  show "list_all (\<lambda>p. id_photo p = i \<longrightarrow> status p = Error \<and> error p = Some msg)
               (applyMerges i [MarkPending, GenerationFailed msg] photos)"
    using failed_after_pending[of i msg photos] by (simp add: applyMerges_def)
qed

theorem text_only_response_fails_without_retry_witness:
  "handleGenerateImage (servicesWith alwaysTextOnly) [photoA] ''a''
     = ([FetchImage ''http://x/a.png'', ModelCall 1],
        [MarkPending,
         GenerationFailed (failedToGenerate (textInsteadOfImage ''I cannot edit this photo.''))])
   \<and> map status (applyMerges ''a''
         [MarkPending,
          GenerationFailed (failedToGenerate (textInsteadOfImage ''I cannot edit this photo.''))]
         [photoA]) = [Error]
   \<and> includes_str (failedToGenerate (textInsteadOfImage ''I cannot edit this photo.''))
         ''I cannot edit this photo.''"
proof -
  have found: "find (\<lambda>p. id_photo p = ''a'') [photoA] = Some photoA"
    by (simp add: photoA_def)
  have url: "imageUrl photoA \<noteq> []"
    by (simp add: photoA_def)
  have fetched: "imageUrlToDataUrl (fetchImage (servicesWith alwaysTextOnly)) (imageUrl photoA)
       = Inr ''data:image/png;base64,AAAA''"
    by (simp add: imageUrlToDataUrl_def servicesWith_def)
  have key: "keyConfigured (servicesWith alwaysTextOnly)"
    by (simp add: servicesWith_def)
  have gen: "alwaysTextOnly = generateContent (servicesWith alwaysTextOnly)
       \<lparr>mimeType = ''image/png'', data = ''AAAA''\<rparr> (promptFor (message photoA))"
    by (simp add: servicesWith_def)
  have before: "\<forall>n. 1 \<le> n \<and> n < 1 \<longrightarrow>
       (\<exists>e. alwaysTextOnly n = Inl e \<and> isInternalError (errorMessageOf e))"
    by simp
  have ret: "alwaysTextOnly 1 = Inr textOnlyResponse"
    by (simp add: alwaysTextOnly_def)
  have rtext: "responseText textOnlyResponse = Some ''I cannot edit this photo.''"
    by (simp add: textOnlyResponse_def)
  show ?thesis
    using text_only_response_fails_without_retry
      [OF found url fetched matchDataUrl_png key gen before _ _ ret textOnly_noimage rtext _ refl]
    by (simp add: retryTrace_simps photoA_def applyMerges_def markPending_def
          generationFailed_def)
qed

text \<open>
  C8. Two id-keyed merges whose target ids differ commute: applied to any photo list in
  either order they give the same list. Each merge keeps the length of the list,
  replaces the entries whose id is its target and leaves every other entry as it is.
\<close>

theorem merge_commute_distinct_ids:
  "i \<noteq> j \<Longrightarrow>
     applyMerge i m (applyMerge j n photos) = applyMerge j n (applyMerge i m photos)
     \<and> length (applyMerge i m photos) = length photos
     \<and> (\<forall>k < length photos.
           applyMerge i m photos ! k =
             (if id_photo (photos ! k) = i then mergeEntry m (photos ! k) else photos ! k))"
proof (intro conjI allI impI)
  assume ne: "i \<noteq> j"
  show "applyMerge i m (applyMerge j n photos) = applyMerge j n (applyMerge i m photos)"
    unfolding applyMerge_map using ne
    by (induction photos) (auto simp: mergeEntry_id)
next
  show "length (applyMerge i m photos) = length photos"
    unfolding applyMerge_map by simp
next
  fix k assume "k < length photos"
  then show "applyMerge i m photos ! k =
      (if id_photo (photos ! k) = i then mergeEntry m (photos ! k) else photos ! k)"
    unfolding applyMerge_map by simp
qed

theorem merge_commute_distinct_ids_witness:
  "''a'' \<noteq> ''b''
   \<and> applyMerge ''a'' (GenerationDone ''http://g/a.png'')
         (applyMerge ''b'' (GenerationFailed ''boom'') [photoA, photoB])
       = applyMerge ''b'' (GenerationFailed ''boom'')
           (applyMerge ''a'' (GenerationDone ''http://g/a.png'') [photoA, photoB])
   \<and> applyMerge ''a'' (GenerationDone ''http://g/a.png'') [photoA, photoB] ! 1 = photoB"
  using merge_commute_distinct_ids
    [of "''a''" "''b''" "GenerationDone ''http://g/a.png''" "GenerationFailed ''boom''"
        "[photoA, photoB]"]
  by (simp add: photoA_def photoB_def)

text \<open>
  C9 as the spec states it fails: \<^verbatim>\<open>handleGenerateImage\<close> does not look at the message.
  For an entry in status error with an empty message (the card shows Try Again) it marks
  the entry pending, fetches the image, calls the model and uploads the result.
\<close>

theorem generate_with_empty_message_counterexample:
  "message photoE = [] \<and> tryAgainShown photoE
   \<and> handleGenerateImage (servicesWith alwaysImage) [photoE] ''e''
     = ([FetchImage ''http://x/e.png'', ModelCall 1, UploadImage ''data:image/png;base64,QUJD''],
        [MarkPending, GenerationDone ''http://blob/g.png''])
   \<and> map status (markPending ''e'' [photoE]) = [Pending]"
  by (simp add: handleGenerateImage_photoE) (simp add: photoE_def tryAgainShown_def markPending_def)

text \<open>
  C9, amended. The message is checked by the card, not by the handler. The Generate
  button can be pressed exactly when the entry is idle and neither its date nor its
  message is empty, so it is disabled for an idle entry whose date or message is empty;
  Try Again is shown exactly in status error, with no condition on the message. And
  \<^verbatim>\<open>handleGenerateImage\<close> on the id of an existing entry with a non-empty
  \<^verbatim>\<open>imageUrl\<close> marks it pending and starts generation, whatever its message.
\<close>

theorem generate_gate_is_in_the_card:
  "(generateButtonEnabled p \<longleftrightarrow> status p = Idle \<and> date p \<noteq> [] \<and> message p \<noteq> [])
   \<and> (status p = Idle \<and> (date p = [] \<or> message p = []) \<longrightarrow> \<not> generateButtonEnabled p)
   \<and> (tryAgainShown p \<longleftrightarrow> status p = Error)
   \<and> (find (\<lambda>p. id_photo p = i) photos = Some photo \<and> imageUrl photo \<noteq> [] \<longrightarrow>
        (\<exists>effs outcome. handleGenerateImage sv photos i
            = (FetchImage (imageUrl photo) # effs, [MarkPending, outcome])))"
proof (intro conjI impI)
  show "generateButtonEnabled p \<longleftrightarrow> status p = Idle \<and> date p \<noteq> [] \<and> message p \<noteq> []"
    by (simp add: generateButtonEnabled_def)
next
  assume "status p = Idle \<and> (date p = [] \<or> message p = [])"
  then show "\<not> generateButtonEnabled p" by (auto simp: generateButtonEnabled_def)
next
  show "tryAgainShown p \<longleftrightarrow> status p = Error"
    by (simp add: tryAgainShown_def)
next
  assume a: "find (\<lambda>p. id_photo p = i) photos = Some photo \<and> imageUrl photo \<noteq> []"
  obtain effs where e: "fst (generateTimelineImage sv (imageUrl photo) (message photo))
      = FetchImage (imageUrl photo) # effs"
    using generateTimelineImage_fetches_first by blast
  show "\<exists>effs outcome. handleGenerateImage sv photos i
            = (FetchImage (imageUrl photo) # effs, [MarkPending, outcome])"
    using a e by (auto simp: handleGenerateImage_def Let_def split: sum.splits)
qed

theorem generate_gate_is_in_the_card_witness:
  "status photoI = Idle \<and> date photoI \<noteq> [] \<and> message photoI = []
   \<and> \<not> generateButtonEnabled photoI
   \<and> status photoD = Idle \<and> date photoD = [] \<and> message photoD \<noteq> []
   \<and> \<not> generateButtonEnabled photoD
   \<and> generateButtonEnabled photoA
   \<and> tryAgainShown photoE \<and> message photoE = []
   \<and> find (\<lambda>p. id_photo p = ''i'') [photoI] = Some photoI \<and> imageUrl photoI \<noteq> []
   \<and> (\<exists>effs outcome. handleGenerateImage (servicesWith alwaysImage) [photoI] ''i''
            = (FetchImage (imageUrl photoI) # effs, [MarkPending, outcome]))
   \<and> find (\<lambda>p. id_photo p = ''e'') [photoE] = Some photoE \<and> imageUrl photoE \<noteq> []
   \<and> (\<exists>effs outcome. handleGenerateImage (servicesWith alwaysImage) [photoE] ''e''
            = (FetchImage (imageUrl photoE) # effs, [MarkPending, outcome]))"
proof -
  have i: "status photoI = Idle \<and> date photoI \<noteq> [] \<and> message photoI = []"
    by (simp add: photoI_def)
  have d: "status photoD = Idle \<and> date photoD = [] \<and> message photoD \<noteq> []"
    by (simp add: photoD_def)
  have a: "status photoA = Idle \<and> date photoA \<noteq> [] \<and> message photoA \<noteq> []"
    by (simp add: photoA_def)
  have e: "status photoE = Error \<and> message photoE = []"
    by (simp add: photoE_def)
  have fi: "find (\<lambda>p. id_photo p = ''i'') [photoI] = Some photoI \<and> imageUrl photoI \<noteq> []"
    by (simp add: photoI_def)
  have fe: "find (\<lambda>p. id_photo p = ''e'') [photoE] = Some photoE \<and> imageUrl photoE \<noteq> []"
    by (simp add: photoE_def)
  note gi = generate_gate_is_in_the_card[of photoI "''i''" "[photoI]" photoI
        "servicesWith alwaysImage"]
  note gd = generate_gate_is_in_the_card[of photoD "''i''" "[photoI]" photoI
        "servicesWith alwaysImage"]
  note ga = generate_gate_is_in_the_card[of photoA "''i''" "[photoI]" photoI
        "servicesWith alwaysImage"]
  note ge = generate_gate_is_in_the_card[of photoE "''e''" "[photoE]" photoE
        "servicesWith alwaysImage"]
  have ni: "\<not> generateButtonEnabled photoI" using gi i by blast
  have nd: "\<not> generateButtonEnabled photoD" using gd d by blast
  have ya: "generateButtonEnabled photoA" using ga a by blast
  have te: "tryAgainShown photoE" using ge e by blast
  have hi: "\<exists>effs outcome. handleGenerateImage (servicesWith alwaysImage) [photoI] ''i''
            = (FetchImage (imageUrl photoI) # effs, [MarkPending, outcome])"
    using gi fi by blast
  have he: "\<exists>effs outcome. handleGenerateImage (servicesWith alwaysImage) [photoE] ''e''
            = (FetchImage (imageUrl photoE) # effs, [MarkPending, outcome])"
    using ge fe by blast
  show ?thesis
    using i d e fi fe ni nd ya te hi he by blast
qed

text \<open>
  C10. When no entry has the id, or the first entry with the id has an empty
  \<^verbatim>\<open>imageUrl\<close>, \<^verbatim>\<open>handleGenerateImage\<close> has no effect and issues no merge: the list
  stays as it is.
\<close>

theorem generate_precondition_failure_is_noop:
  assumes "find (\<lambda>p. id_photo p = i) photos = None
           \<or> (\<exists>photo. find (\<lambda>p. id_photo p = i) photos = Some photo \<and> imageUrl photo = [])"
  shows "handleGenerateImage sv photos i = ([], [])
         \<and> applyMerges i (snd (handleGenerateImage sv photos i)) photos = photos"
  using assms by (auto simp: handleGenerateImage_def applyMerges_def)

theorem generate_precondition_failure_is_noop_witness:
  "find (\<lambda>p. id_photo p = ''b'') [photoA] = None
   \<and> handleGenerateImage (servicesWith alwaysImage) [photoA] ''b'' = ([], [])
   \<and> find (\<lambda>p. id_photo p = ''n'') [photoA, newPhoto ''n'' ''data:image/jpeg;base64,AAAA'']
       = Some (newPhoto ''n'' ''data:image/jpeg;base64,AAAA'')
   \<and> imageUrl (newPhoto ''n'' ''data:image/jpeg;base64,AAAA'') = []
   \<and> handleGenerateImage (servicesWith alwaysImage)
        [photoA, newPhoto ''n'' ''data:image/jpeg;base64,AAAA''] ''n'' = ([], [])"
proof -
  have a: "find (\<lambda>p. id_photo p = ''b'') [photoA] = None"
    by (simp add: photoA_def)
  have b: "find (\<lambda>p. id_photo p = ''n'') [photoA, newPhoto ''n'' ''data:image/jpeg;base64,AAAA'']
       = Some (newPhoto ''n'' ''data:image/jpeg;base64,AAAA'')"
    by (simp add: photoA_def newPhoto_def)
  have c: "imageUrl (newPhoto ''n'' ''data:image/jpeg;base64,AAAA'') = []"
    by (simp add: newPhoto_def)
  from a have a': "find (\<lambda>p. id_photo p = ''b'') [photoA] = None
           \<or> (\<exists>photo. find (\<lambda>p. id_photo p = ''b'') [photoA] = Some photo \<and> imageUrl photo = [])"
    by (rule disjI1)
  from b c have b': "find (\<lambda>p. id_photo p = ''n'') [photoA, newPhoto ''n'' ''data:image/jpeg;base64,AAAA''] = None
           \<or> (\<exists>photo. find (\<lambda>p. id_photo p = ''n'') [photoA, newPhoto ''n'' ''data:image/jpeg;base64,AAAA''] = Some photo \<and> imageUrl photo = [])"
    by blast
  show ?thesis
    using a b c generate_precondition_failure_is_noop[OF a', of "servicesWith alwaysImage"]
      generate_precondition_failure_is_noop[OF b', of "servicesWith alwaysImage"]
    by simp
qed

end
